theory Spec2Isabelle
  imports Complex_Main
begin

section \<open>The balance controller of balance\_lqr\_controller.cpp\<close>

text \<open>
  The controller computes with C++ \<open>float\<close> and \<open>double\<close>. Both are modelled as
  \<^typ>\<open>real\<close>: every theorem below is a statement over exact arithmetic, with
  \<open>M_PI\<close> read as \<^term>\<open>pi\<close>. Two stores into a \<open>float\<close> are modelled with their
  rounding, because the properties of the clamp and of the low-pass filter depend on it:
  the clamped bound of lines 193 and 197 and the low-pass value of line 205 are rounded
  to the nearest \<open>float\<close> by \<open>to_float\<close>. All other arithmetic is exact; NaN and
  infinities are outside the model. The one conversion from a floating value to an
  integer type (the argument of \<open>sleep\<close>) is written out.
\<close>

subsection \<open>Rounding to \<open>float\<close>\<close>

text \<open>
  The conversion of a real value to IEEE 754 binary32 in the default rounding mode: to
  the nearest representable value, a tie going to the one with an even significand.
  \<open>float_exponent\<close> is the binary exponent of the value, not below that of the
  smallest normal number, \<open>float_ulp\<close> the spacing of the 24-bit significands at that
  exponent. Results beyond the largest finite \<open>float\<close> (where the conversion gives an
  infinity) are not modelled.
\<close>

definition rne :: "real \<Rightarrow> int" where
  "rne q =
     (let n = \<lfloor>q\<rfloor>; r = q - of_int n
      in if r < 1 / 2 then n else if 1 / 2 < r then n + 1 else if even n then n else n + 1)"

definition float_exponent :: "real \<Rightarrow> int" where
  "float_exponent x = max \<lfloor>log 2 \<bar>x\<bar>\<rfloor> (- 126)"

definition float_ulp :: "real \<Rightarrow> real" where
  "float_ulp x = 2 powi (float_exponent x - 23)"

definition to_float :: "real \<Rightarrow> real" where
  "to_float x = (if x = 0 then 0 else of_int (rne (x / float_ulp x)) * float_ulp x)"

subsection \<open>Data model\<close>

record vel_cmd =
  forward :: real
  turn :: real
  forward_gain :: real
  turn_gain :: real

record orientation =
  roll :: real
  pitch :: real
  yaw :: real
  d_roll :: real
  d_pitch :: real
  d_yaw :: real
  dt :: real

record encoders =
  position_left :: real
  position_right :: real
  velocity_left :: real
  velocity_right :: real

record inner_wheel =
  position :: real
  velocity :: real

text \<open>
  The file-scope variables. \<open>motor_position\<close> (a \<open>wheel_position\<close>) is declared in the
  source but neither read nor written anywhere, and is left out.
\<close>

record globals =
  main_loop :: real
  velocity_cmd :: vel_cmd
  orientation_imu_measurement :: orientation
  orientation_ow_measurement :: orientation
  encoders_measurement :: encoders
  vel_lowpass :: real
  combined_inner_wheel :: inner_wheel

text \<open>
  The initial values of lines 59 to 70. The two orientation records are
  aggregate-initialised with four values, so the fourth field, \<open>d_roll\<close>, starts at 0.2
  and the remaining fields at 0.
\<close>

definition globals_init :: globals where
  "globals_init =
     \<lparr>main_loop = 0.08,
      velocity_cmd = \<lparr>forward = 0, turn = 0, forward_gain = 0.05, turn_gain = 3\<rparr>,
      orientation_imu_measurement =
        \<lparr>roll = 0, pitch = 0, yaw = 0, d_roll = 0.2, d_pitch = 0, d_yaw = 0, dt = 0\<rparr>,
      orientation_ow_measurement =
        \<lparr>roll = 0, pitch = 0, yaw = 0, d_roll = 0.2, d_pitch = 0, d_yaw = 0, dt = 0\<rparr>,
      encoders_measurement =
        \<lparr>position_left = 0, position_right = 0, velocity_left = 0, velocity_right = 0\<rparr>,
      vel_lowpass = 20,
      combined_inner_wheel = \<lparr>position = 0, velocity = 0\<rparr>\<rparr>"

text \<open>The variables local to \<open>main\<close> that live across loop iterations (lines 171 to 176).\<close>

record locals =
  motor_increment :: real
  velocity_lp :: real
  state_x :: "real list"
  target_w :: "real list"
  control_k :: "real list"

definition locals_init :: locals where
  "locals_init =
     \<lparr>motor_increment = 0,
      velocity_lp = 0,
      state_x = [0, 0, 0, 0, 0, 0],
      target_w = [0.1415, 0, 0, 0, 0, 0],
      control_k = [-453.11421438, -41.03540067, 15.17484972,
                   -6.16366411, -4.47213596, -4.30609058]\<rparr>"

text \<open>The three arrays are declared \<open>float [6]\<close>.\<close>

definition wf_locals :: "locals \<Rightarrow> bool" where
  "wf_locals l \<longleftrightarrow>
     length (state_x l) = 6 \<and> length (target_w l) = 6 \<and> length (control_k l) = 6"

subsection \<open>Messages\<close>

text \<open>
  Modelled from the spec: the message types of \<open>balance_robot_msgs\<close> and
  \<open>sensor_msgs\<close> are not part of the source file; only the fields the controller
  reads or writes are known. Their numeric fields are taken as reals (the spec's
  "float" and "raw tick position/velocity").
\<close>

record Joy =
  axes :: "real list"

record Orientation =
  msg_roll :: real
  msg_pitch :: real
  msg_yaw :: real
  msg_d_roll :: real
  msg_d_pitch :: real
  msg_d_yaw :: real
  msg_dt :: real

record Encoder =
  enc_position :: real
  enc_velocity :: real

record Encoders =
  encoder0 :: Encoder
  encoder1 :: Encoder

record ParameterValue =
  double_value :: real

record Parameter =
  name :: string
  val :: ParameterValue

record ParameterEvent =
  changed_parameters :: "Parameter list"

record Header =
  frame_id :: string
  stamp :: int

record Pid =
  setpoint :: real
  measurement :: real
  increment :: real

record Balance =
  bal_header :: Header
  bal_roll :: Pid
  bal_velocity :: Pid
  motor :: real
  motor_left :: real
  motor_right :: real

record Motor =
  mot_setpoint :: real

record Motors =
  mot_header :: Header
  motor0 :: Motor
  motor1 :: Motor

subsection \<open>Unit conversion (lines 99 to 105)\<close>

definition cprToRad :: "real \<Rightarrow> real" where
  "cprToRad cpr_value = cpr_value * 2 * pi / 8192"

definition radToCpr :: "real \<Rightarrow> real" where
  "radToCpr rad_value = rad_value * 8192 / (2 * pi)"

subsection \<open>Callbacks (lines 72 to 128)\<close>

text \<open>
  \<open>msg->axes[1]\<close> indexes a \<open>std::vector\<close> without a bounds check; a message with
  fewer than two axes has no defined behaviour, which the model returns as \<open>None\<close>.
\<close>

definition joy_topic_callback :: "Joy \<Rightarrow> globals \<Rightarrow> globals option" where
  "joy_topic_callback msg g =
     (if length (axes msg) < 2 then None
      else Some (g\<lparr>velocity_cmd :=
                     (velocity_cmd g)\<lparr>forward := axes msg ! 1, turn := axes msg ! 0\<rparr>\<rparr>))"

definition orientation_of_msg :: "Orientation \<Rightarrow> orientation" where
  "orientation_of_msg msg =
     \<lparr>roll = msg_roll msg, pitch = msg_pitch msg, yaw = msg_yaw msg,
      d_roll = msg_d_roll msg, d_pitch = msg_d_pitch msg, d_yaw = msg_d_yaw msg,
      dt = msg_dt msg\<rparr>"

definition orientation_imu_topic_callback :: "Orientation \<Rightarrow> globals \<Rightarrow> globals" where
  "orientation_imu_topic_callback msg g =
     g\<lparr>orientation_imu_measurement := orientation_of_msg msg\<rparr>"

definition orientation_ow_topic_callback :: "Orientation \<Rightarrow> globals \<Rightarrow> globals" where
  "orientation_ow_topic_callback msg g =
     g\<lparr>orientation_ow_measurement := orientation_of_msg msg\<rparr>"

definition encoders_topic_callback :: "Encoders \<Rightarrow> globals \<Rightarrow> globals" where
  "encoders_topic_callback msg g =
     (let em = \<lparr>position_left = cprToRad (enc_position (encoder1 msg) * -1),
                position_right = cprToRad (enc_position (encoder0 msg)),
                velocity_left = cprToRad (enc_velocity (encoder1 msg) * -1),
                velocity_right = cprToRad (enc_velocity (encoder0 msg))\<rparr>
      in g\<lparr>encoders_measurement := em,
            combined_inner_wheel :=
              \<lparr>position = position_right em,
               velocity = (velocity_right em + velocity_left em) / 2\<rparr>\<rparr>)"

definition param_change_one :: "Parameter \<Rightarrow> globals \<Rightarrow> globals" where
  "param_change_one parameter g =
     (let g1 = (if name parameter = ''vel_cmd.forward_gain''
                then g\<lparr>velocity_cmd :=
                         (velocity_cmd g)\<lparr>forward_gain := double_value (val parameter)\<rparr>\<rparr>
                else g);
          g2 = (if name parameter = ''vel_cmd.turn_gain''
                then g1\<lparr>velocity_cmd :=
                          (velocity_cmd g1)\<lparr>turn_gain := double_value (val parameter)\<rparr>\<rparr>
                else g1)
      in if name parameter = ''main_loop''
         then g2\<lparr>main_loop := double_value (val parameter)\<rparr>
         else g2)"

definition param_change_callback :: "ParameterEvent \<Rightarrow> globals \<Rightarrow> globals" where
  "param_change_callback event g = fold param_change_one (changed_parameters event) g"

subsection \<open>One iteration of the control loop (lines 181 to 244)\<close>

text \<open>Lines 181 to 186: the state vector is overwritten from the latest measurements.\<close>

definition read_state :: "globals \<Rightarrow> real list \<Rightarrow> real list" where
  "read_state g x =
     x[0 := roll (orientation_imu_measurement g),
       1 := d_roll (orientation_imu_measurement g),
       2 := -1 * pitch (orientation_ow_measurement g),
       3 := -1 * d_pitch (orientation_ow_measurement g),
       4 := position (combined_inner_wheel g),
       5 := velocity (combined_inner_wheel g)]"

text \<open>Lines 188 and 189: the command is integrated into the position target.\<close>

definition integrate_cmd :: "vel_cmd \<Rightarrow> real list \<Rightarrow> real list" where
  "integrate_cmd c w =
     (w[4 := w ! 4 + forward c * forward_gain c])[5 := forward c * forward_gain c]"

text \<open>
  Lines 191 to 198: "Limit max delta input". The comparisons are made in \<open>double\<close>;
  the assignments narrow the \<open>double\<close> bound to the \<open>float\<close> element \<open>target_w[4]\<close>.
\<close>

definition limit_delta :: "real list \<Rightarrow> real list \<Rightarrow> real list" where
  "limit_delta x w =
     (let w1 = (if w ! 4 > x ! 4 + pi * 2 then w[4 := to_float (x ! 4 + pi * 2)] else w)
      in if w1 ! 4 < x ! 4 - pi * 2 then w1[4 := to_float (x ! 4 - pi * 2)] else w1)"

text \<open>Lines 200 to 203: the feedback sum, accumulated from 0 for \<open>i = 0, ..., 5\<close>.\<close>

definition feedback :: "real list \<Rightarrow> real list \<Rightarrow> real list \<Rightarrow> real" where
  "feedback x w k = fold (\<lambda>i m. m - (x ! i - w ! i) * k ! i) [0..<6] 0"

text \<open>
  The loop body up to the two \<open>publish\<close> calls. \<open>current_stamp\<close> is the reading of
  the clock at line 206. Line 205 stores the mean into the \<open>float\<close> variable
  \<open>velocity_lp\<close>. The result is the updated locals and the two messages.
\<close>

definition loop_body :: "int \<Rightarrow> globals \<Rightarrow> locals \<Rightarrow> locals \<times> Balance \<times> Motors" where
  "loop_body current_stamp g l =
     (let x = read_state g (state_x l);
          w = limit_delta x (integrate_cmd (velocity_cmd g) (target_w l));
          mi = feedback x w (control_k l);
          lp = to_float ((velocity_lp l + x ! 5) / 2);
          pwm_target = lp + mi * main_loop g;
          pwm_target_left =
            pwm_target - (turn (velocity_cmd g) * turn_gain (velocity_cmd g));
          pwm_target_right =
            pwm_target + (turn (velocity_cmd g) * turn_gain (velocity_cmd g));
          hdr = \<lparr>frame_id = ''robot'', stamp = current_stamp\<rparr>
      in (l\<lparr>motor_increment := mi, velocity_lp := lp, state_x := x, target_w := w\<rparr>,
          \<lparr>bal_header = hdr,
           bal_roll = \<lparr>setpoint = x ! 0, measurement = x ! 1, increment = x ! 2\<rparr>,
           bal_velocity = \<lparr>setpoint = x ! 3, measurement = x ! 4, increment = x ! 5\<rparr>,
           motor = pwm_target,
           motor_left = pwm_target_left,
           motor_right = pwm_target_right\<rparr>,
          \<lparr>mot_header = hdr,
           motor0 = \<lparr>mot_setpoint = radToCpr pwm_target_right\<rparr>,
           motor1 = \<lparr>mot_setpoint = radToCpr (pwm_target_left * -1)\<rparr>\<rparr>))"

subsection \<open>Dispatch and sleep (lines 245 and 246)\<close>

text \<open>
  \<open>spin_some\<close> runs the callbacks of the messages that are waiting, in order. The
  callbacks run nowhere else: the node is spun only at line 245.
\<close>

datatype event =
    JoyMsg Joy
  | OrientationImuMsg Orientation
  | OrientationOwMsg Orientation
  | EncodersMsg Encoders
  | ParamMsg ParameterEvent

fun dispatch :: "event \<Rightarrow> globals \<Rightarrow> globals option" where
  "dispatch (JoyMsg m) g = joy_topic_callback m g"
| "dispatch (OrientationImuMsg m) g = Some (orientation_imu_topic_callback m g)"
| "dispatch (OrientationOwMsg m) g = Some (orientation_ow_topic_callback m g)"
| "dispatch (EncodersMsg m) g = Some (encoders_topic_callback m g)"
| "dispatch (ParamMsg m) g = Some (param_change_callback m g)"

fun spin_some :: "event list \<Rightarrow> globals \<Rightarrow> globals option" where
  "spin_some [] g = Some g"
| "spin_some (e # es) g =
     (case dispatch e g of None \<Rightarrow> None | Some g' \<Rightarrow> spin_some es g')"

text \<open>
  \<open>sleep\<close> is the POSIX function of \<open>unistd.h\<close>, \<open>unsigned int sleep(unsigned int)\<close>:
  the \<open>float\<close> argument is converted to \<open>unsigned int\<close> by truncation toward zero. The
  conversion is defined only when the truncated value fits the type (32 bits here).
\<close>

definition float_to_uint :: "real \<Rightarrow> nat option" where
  "float_to_uint f =
     (let t = (if 0 \<le> f then \<lfloor>f\<rfloor> else \<lceil>f\<rceil>)
      in if 0 \<le> t \<and> t < 2 ^ 32 then Some (nat t) else None)"

definition sleep_seconds :: "globals \<Rightarrow> nat option" where
  "sleep_seconds g = float_to_uint (main_loop g)"

text \<open>
  The loop of lines 180 to 247, run for as many iterations as \<open>rclcpp::ok()\<close> holds:
  each iteration is given the clock reading and the events its \<open>spin_some\<close>
  dispatches. The result lists, per iteration, the two published messages and the
  argument passed to \<open>sleep\<close>.
\<close>

type_synonym iteration = "int \<times> event list"

type_synonym published = "Balance \<times> Motors \<times> nat"

fun main_while ::
  "globals \<Rightarrow> locals \<Rightarrow> iteration list \<Rightarrow> (published list \<times> globals \<times> locals) option" where
  "main_while g l [] = Some ([], g, l)"
| "main_while g l ((current_stamp, es) # its) =
     (case loop_body current_stamp g l of
        (l', bal, mot) \<Rightarrow>
          (case spin_some es g of
             None \<Rightarrow> None
           | Some g' \<Rightarrow>
               (case sleep_seconds g' of
                  None \<Rightarrow> None
                | Some secs \<Rightarrow>
                    (case main_while g' l' its of
                       None \<Rightarrow> None
                     | Some (out, gf, lf) \<Rightarrow> Some ((bal, mot, secs) # out, gf, lf)))))"

subsection \<open>Runs of the loop as seen by the locals\<close>

text \<open>
  The locals are written by the loop body only, and the loop body reads the globals as
  they are at the start of the iteration. \<open>loop_locals\<close> runs the body over the clock
  readings and the globals each iteration observes; \<open>observed\<close> lists those for a run of
  \<open>main_while\<close>.
\<close>

fun loop_locals :: "locals \<Rightarrow> (int \<times> globals) list \<Rightarrow> locals" where
  "loop_locals l [] = l"
| "loop_locals l ((current_stamp, g) # obs) =
     loop_locals (fst (loop_body current_stamp g l)) obs"

fun observed :: "globals \<Rightarrow> iteration list \<Rightarrow> (int \<times> globals) list" where
  "observed g [] = []"
| "observed g ((current_stamp, es) # its) =
     (current_stamp, g) #
       (case spin_some es g of None \<Rightarrow> [] | Some g' \<Rightarrow> observed g' its)"

subsection \<open>Inputs that agree except on the unused fields\<close>

text \<open>
  Two orientation messages agree up to \<open>yaw\<close>, \<open>d_yaw\<close> and \<open>dt\<close>; two encoder messages
  up to the position of \<open>encoder1\<close> (the left wheel); two parameter changes up to the value
  given to \<open>vel_lowpass\<close>. Two global states agree up to the fields those inputs are
  stored in.
\<close>

definition orientation_msg_eqv :: "Orientation \<Rightarrow> Orientation \<Rightarrow> bool" where
  "orientation_msg_eqv m m' \<longleftrightarrow>
     msg_roll m = msg_roll m' \<and> msg_pitch m = msg_pitch m' \<and>
     msg_d_roll m = msg_d_roll m' \<and> msg_d_pitch m = msg_d_pitch m'"

definition encoders_msg_eqv :: "Encoders \<Rightarrow> Encoders \<Rightarrow> bool" where
  "encoders_msg_eqv m m' \<longleftrightarrow>
     encoder0 m = encoder0 m' \<and> enc_velocity (encoder1 m) = enc_velocity (encoder1 m')"

definition parameter_eqv :: "Parameter \<Rightarrow> Parameter \<Rightarrow> bool" where
  "parameter_eqv p p' \<longleftrightarrow>
     name p = name p' \<and> (name p = ''vel_lowpass'' \<or> val p = val p')"

fun event_eqv :: "event \<Rightarrow> event \<Rightarrow> bool" where
  "event_eqv (JoyMsg m) (JoyMsg m') = (m = m')"
| "event_eqv (OrientationImuMsg m) (OrientationImuMsg m') = orientation_msg_eqv m m'"
| "event_eqv (OrientationOwMsg m) (OrientationOwMsg m') = orientation_msg_eqv m m'"
| "event_eqv (EncodersMsg m) (EncodersMsg m') = encoders_msg_eqv m m'"
| "event_eqv (ParamMsg m) (ParamMsg m') =
     list_all2 parameter_eqv (changed_parameters m) (changed_parameters m')"
| "event_eqv _ _ = False"

definition iteration_eqv :: "iteration \<Rightarrow> iteration \<Rightarrow> bool" where
  "iteration_eqv it it' \<longleftrightarrow> fst it = fst it' \<and> list_all2 event_eqv (snd it) (snd it')"

definition orientation_eqv :: "orientation \<Rightarrow> orientation \<Rightarrow> bool" where
  "orientation_eqv a a' \<longleftrightarrow>
     roll a = roll a' \<and> pitch a = pitch a' \<and> d_roll a = d_roll a' \<and> d_pitch a = d_pitch a'"

definition globals_eqv :: "globals \<Rightarrow> globals \<Rightarrow> bool" where
  "globals_eqv g g' \<longleftrightarrow>
     main_loop g = main_loop g' \<and>
     velocity_cmd g = velocity_cmd g' \<and>
     orientation_eqv (orientation_imu_measurement g) (orientation_imu_measurement g') \<and>
     orientation_eqv (orientation_ow_measurement g) (orientation_ow_measurement g') \<and>
     position_right (encoders_measurement g) = position_right (encoders_measurement g') \<and>
     velocity_left (encoders_measurement g) = velocity_left (encoders_measurement g') \<and>
     velocity_right (encoders_measurement g) = velocity_right (encoders_measurement g') \<and>
     combined_inner_wheel g = combined_inner_wheel g'"

subsection \<open>Concrete inputs\<close>

text \<open>States, messages and runs at which the theorems below are instantiated.\<close>

definition g_upright :: globals where
  "g_upright = globals_init\<lparr>orientation_imu_measurement :=
     (orientation_imu_measurement globals_init)\<lparr>roll := 0.1415, d_roll := 0\<rparr>\<rparr>"

definition l_zero_gain :: locals where
  "l_zero_gain = locals_init\<lparr>control_k := [0, 0, 0, 0, 0, 0]\<rparr>"

definition l_far_target :: locals where
  "l_far_target = locals_init\<lparr>target_w := [0.1415, 0, 0, 0, 100, 0]\<rparr>"

definition g_forward :: globals where
  "g_forward = globals_init\<lparr>velocity_cmd := (velocity_cmd globals_init)\<lparr>forward := 1\<rparr>\<rparr>"


definition g_turn :: globals where
  "g_turn = globals_init\<lparr>main_loop := 0, velocity_cmd := (velocity_cmd globals_init)\<lparr>turn := 1\<rparr>\<rparr>"

definition l_moving :: locals where
  "l_moving = locals_init\<lparr>velocity_lp := 10\<rparr>"

definition l_stall :: locals where
  "l_stall = locals_init\<lparr>velocity_lp := 13176794 / 2 ^ 21\<rparr>"

definition g_spin :: globals where
  "g_spin = globals_init\<lparr>combined_inner_wheel := \<lparr>position = 0, velocity = 13176795 / 2 ^ 21\<rparr>\<rparr>"

definition its_example :: "iteration list" where
  "its_example =
     [(0, [JoyMsg \<lparr>axes = [0, 1]\<rparr>,
           OrientationImuMsg \<lparr>msg_roll = 0.1, msg_pitch = 0, msg_yaw = 1, msg_d_roll = 0,
                              msg_d_pitch = 0, msg_d_yaw = 2, msg_dt = 0.01\<rparr>,
           EncodersMsg \<lparr>encoder0 = \<lparr>enc_position = 8192, enc_velocity = 0\<rparr>,
                        encoder1 = \<lparr>enc_position = 5, enc_velocity = 0\<rparr>\<rparr>,
           ParamMsg \<lparr>changed_parameters =
             [\<lparr>name = ''vel_lowpass'', val = \<lparr>double_value = 7\<rparr>\<rparr>]\<rparr>]),
      (1, [])]"

definition its_example' :: "iteration list" where
  "its_example' =
     [(0, [JoyMsg \<lparr>axes = [0, 1]\<rparr>,
           OrientationImuMsg \<lparr>msg_roll = 0.1, msg_pitch = 0, msg_yaw = 3, msg_d_roll = 0,
                              msg_d_pitch = 0, msg_d_yaw = 4, msg_dt = 0.02\<rparr>,
           EncodersMsg \<lparr>encoder0 = \<lparr>enc_position = 8192, enc_velocity = 0\<rparr>,
                        encoder1 = \<lparr>enc_position = 6, enc_velocity = 0\<rparr>\<rparr>,
           ParamMsg \<lparr>changed_parameters =
             [\<lparr>name = ''vel_lowpass'', val = \<lparr>double_value = 9\<rparr>\<rparr>]\<rparr>]),
      (1, [])]"

section \<open>Properties\<close>

subsection \<open>Auxiliary facts\<close>

lemma float_ulp_pos: "0 < float_ulp x"
  by (simp add: float_ulp_def)

lemma float_exponent_eq:
  assumes "2 powi e \<le> \<bar>x\<bar>" and "\<bar>x\<bar> < 2 powi (e + 1)" and "- 126 \<le> e"
  shows "float_exponent x = e"
proof -
  have "(0::real) < 2 powi e"
    by simp
  with assms(1) have pos: "0 < \<bar>x\<bar>"
    by linarith
  have "(2::real) powr (real_of_int e + 1) = 2 powi (e + 1)"
    using powr_real_of_int' [of 2 "e + 1"] by simp
  then have "\<lfloor>log 2 \<bar>x\<bar>\<rfloor> = e"
    using assms(1,2) pos by (simp add: floor_log_eq_powr_iff powr_real_of_int')
  with assms(3) show ?thesis
    by (simp add: float_exponent_def)
qed

lemma to_float_eval:
  assumes "2 powi e \<le> \<bar>x\<bar>" and "\<bar>x\<bar> < 2 powi (e + 1)" and "- 126 \<le> e"
  shows "to_float x = of_int (rne (x / 2 powi (e - 23))) * 2 powi (e - 23)"
proof -
  have "(0::real) < 2 powi e"
    by simp
  with assms(1) have "0 < \<bar>x\<bar>"
    by linarith
  then have "x \<noteq> 0"
    by simp
  then show ?thesis
    by (simp add: to_float_def float_ulp_def float_exponent_eq [OF assms])
qed

lemma rne_error: "\<bar>of_int (rne q) - q\<bar> \<le> 1 / 2"
proof -
  have "of_int \<lfloor>q\<rfloor> \<le> q" and "q < of_int \<lfloor>q\<rfloor> + 1"
    by linarith+
  then show ?thesis
    by (auto simp: rne_def Let_def abs_le_iff)
qed

lemma to_float_error: "\<bar>to_float x - x\<bar> \<le> float_ulp x / 2"
proof (cases "x = 0")
  case True
  then show ?thesis
    using float_ulp_pos [of x] by (simp add: to_float_def)
next
  case False
  let ?u = "float_ulp x"
  have u: "0 < ?u" by (rule float_ulp_pos)
  have "to_float x - x = (of_int (rne (x / ?u)) - x / ?u) * ?u"
    using False u by (simp add: to_float_def field_simps)
  then have "\<bar>to_float x - x\<bar> = \<bar>of_int (rne (x / ?u)) - x / ?u\<bar> * ?u"
    using u by (simp add: abs_mult)
  also have "\<dots> \<le> 1 / 2 * ?u"
    using u by (intro mult_right_mono rne_error) simp
  finally show ?thesis by simp
qed

lemma to_float_5: "to_float 5 = 5"
  using to_float_eval [of 2 5] by (simp add: rne_def)

lemma to_float_0: "to_float 0 = 0"
  by (simp add: to_float_def)

lemma rne_bounds: "\<lfloor>q\<rfloor> \<le> rne q" "rne q \<le> \<lfloor>q\<rfloor> + 1"
  by (simp_all add: rne_def Let_def)

lemma rne_of_int: "rne (of_int k) = k"
  by (simp add: rne_def)

lemma rne_ge:
  assumes "of_int k \<le> q"
  shows "k \<le> rne q"
proof -
  from assms have "k \<le> \<lfloor>q\<rfloor>" by (simp add: le_floor_iff)
  with rne_bounds(1) [of q] show ?thesis by linarith
qed

lemma rne_le:
  assumes "q \<le> of_int k"
  shows "rne q \<le> k"
proof (cases "q = of_int k")
  case True
  then show ?thesis by (simp add: rne_of_int)
next
  case False
  with assms have "q < of_int k" by simp
  then have "\<lfloor>q\<rfloor> < k" by (simp add: floor_less_iff)
  with rne_bounds(2) [of q] show ?thesis by linarith
qed

lemma rne_mono:
  assumes "q \<le> q'"
  shows "rne q \<le> rne q'"
proof (cases "\<lfloor>q\<rfloor> = \<lfloor>q'\<rfloor>")
  case True
  with assms show ?thesis
    by (auto simp: rne_def Let_def)
next
  case False
  with assms have "\<lfloor>q\<rfloor> < \<lfloor>q'\<rfloor>"
    using floor_mono [OF assms] by linarith
  with rne_bounds(2) [of q] rne_bounds(1) [of q'] show ?thesis
    by linarith
qed

lemma rne_minus: "rne (- q) = - rne q"
proof (cases "q = of_int \<lfloor>q\<rfloor>")
  case True
  then have "rne q = \<lfloor>q\<rfloor>" and "rne (- q) = - \<lfloor>q\<rfloor>"
    by (metis rne_of_int, metis rne_of_int of_int_minus)
  then show ?thesis by simp
next
  case False
  moreover have "of_int \<lfloor>q\<rfloor> \<le> q" and "q < of_int \<lfloor>q\<rfloor> + 1"
    by linarith+
  ultimately have "of_int \<lfloor>q\<rfloor> < q" and "q < of_int \<lfloor>q\<rfloor> + 1"
    by linarith+
  moreover have "real_of_int (- \<lfloor>q\<rfloor> - 1) = - real_of_int \<lfloor>q\<rfloor> - 1"
    by simp
  ultimately have "of_int (- \<lfloor>q\<rfloor> - 1) \<le> - q" and "- q < of_int (- \<lfloor>q\<rfloor> - 1) + 1"
    by linarith+
  then have f: "\<lfloor>- q\<rfloor> = - \<lfloor>q\<rfloor> - 1"
    by (rule floor_unique)
  show ?thesis
    by (auto simp: rne_def Let_def f)
qed

lemma float_exponent_bounds:
  assumes "x \<noteq> 0"
  shows "\<bar>x\<bar> < 2 powi (float_exponent x + 1)"
    and "- 126 < float_exponent x \<Longrightarrow> 2 powi float_exponent x \<le> \<bar>x\<bar>"
proof -
  let ?k = "\<lfloor>log 2 \<bar>x\<bar>\<rfloor>"
  from assms have pos: "0 < \<bar>x\<bar>" by simp
  have "2 powr ?k \<le> \<bar>x\<bar> \<and> \<bar>x\<bar> < 2 powr (?k + 1)"
    using floor_log_eq_powr_iff [OF pos, of 2 ?k] by simp
  moreover have "(2::real) powr (real_of_int ?k + 1) = 2 powi (?k + 1)"
    using powr_real_of_int' [of 2 "?k + 1"] by simp
  ultimately have k: "2 powi ?k \<le> \<bar>x\<bar>" "\<bar>x\<bar> < 2 powi (?k + 1)"
    by (simp_all add: powr_real_of_int')
  have "(2::real) powi (?k + 1) \<le> 2 powi (float_exponent x + 1)"
    by (rule power_int_increasing) (simp_all add: float_exponent_def)
  with k(2) show "\<bar>x\<bar> < 2 powi (float_exponent x + 1)"
    by linarith
  assume "- 126 < float_exponent x"
  then have "float_exponent x = ?k"
    by (simp add: float_exponent_def max_def split: if_splits)
  with k(1) show "2 powi float_exponent x \<le> \<bar>x\<bar>"
    by simp
qed

lemma float_exponent_mono:
  assumes "x \<noteq> 0" and "\<bar>x\<bar> \<le> \<bar>y\<bar>"
  shows "float_exponent x \<le> float_exponent y"
proof -
  from assms have "log 2 \<bar>x\<bar> \<le> log 2 \<bar>y\<bar>"
    by simp
  then have "\<lfloor>log 2 \<bar>x\<bar>\<rfloor> \<le> \<lfloor>log 2 \<bar>y\<bar>\<rfloor>"
    by (rule floor_mono)
  then show ?thesis
    by (simp add: float_exponent_def)
qed

lemma float_ulp_mono: "x \<noteq> 0 \<Longrightarrow> \<bar>x\<bar> \<le> \<bar>y\<bar> \<Longrightarrow> float_ulp x \<le> float_ulp y"
  unfolding float_ulp_def
  by (rule power_int_increasing) (simp_all add: float_exponent_mono)

lemma float_ulp_minus: "float_ulp (- x) = float_ulp x"
  by (simp add: float_ulp_def float_exponent_def)

lemma to_float_minus: "to_float (- x) = - to_float x"
  by (simp add: to_float_def float_ulp_minus rne_minus)

lemma power_int_split: "(2::real) powi (e + 1) = 2 ^ 24 * 2 powi (e - 23)"
proof -
  have "(2::real) powi (e + 1) = 2 powi (24 + (e - 23))"
    by (rule arg_cong [of _ _ "power_int 2"]) simp
  also have "\<dots> = 2 powi 24 * 2 powi (e - 23)"
    by (rule power_int_add) simp
  finally show ?thesis by simp
qed

lemma power_int_split': "(2::real) powi e = 2 ^ 23 * 2 powi (e - 23)"
proof -
  have "(2::real) powi e = 2 powi (23 + (e - 23))"
    by (rule arg_cong [of _ _ "power_int 2"]) simp
  also have "\<dots> = 2 powi 23 * 2 powi (e - 23)"
    by (rule power_int_add) simp
  finally show ?thesis by simp
qed

lemma to_float_pos_upper:
  assumes "0 < x"
  shows "to_float x \<le> 2 powi (float_exponent x + 1)"
proof -
  let ?u = "float_ulp x"
  have u: "0 < ?u" by (rule float_ulp_pos)
  from assms have "x < 2 powi (float_exponent x + 1)"
    using float_exponent_bounds(1) [of x] by simp
  then have "x < 2 ^ 24 * ?u"
    by (simp add: power_int_split float_ulp_def)
  then have "x / ?u \<le> of_int (2 ^ 24)"
    using u by (simp add: field_simps)
  then have "rne (x / ?u) \<le> 2 ^ 24"
    by (rule rne_le)
  then have "real_of_int (rne (x / ?u)) \<le> 2 ^ 24"
    by simp
  then have "real_of_int (rne (x / ?u)) * ?u \<le> 2 ^ 24 * ?u"
    using u by (simp add: mult_right_mono)
  with assms show ?thesis
    by (simp add: to_float_def power_int_split float_ulp_def)
qed

lemma to_float_pos_lower:
  assumes "0 < x" and "- 126 < float_exponent x"
  shows "2 powi float_exponent x \<le> to_float x"
proof -
  let ?u = "float_ulp x"
  have u: "0 < ?u" by (rule float_ulp_pos)
  from assms have "2 powi float_exponent x \<le> x"
    using float_exponent_bounds(2) [of x] by simp
  then have "2 ^ 23 * ?u \<le> x"
    using power_int_split' [of "float_exponent x"] by (simp add: float_ulp_def)
  then have "of_int (2 ^ 23) \<le> x / ?u"
    using u by (simp add: field_simps)
  then have "2 ^ 23 \<le> rne (x / ?u)"
    by (rule rne_ge)
  then have "2 ^ 23 \<le> real_of_int (rne (x / ?u))"
    by simp
  then have "2 ^ 23 * ?u \<le> real_of_int (rne (x / ?u)) * ?u"
    using u by (simp add: mult_right_mono)
  with assms show ?thesis
    using power_int_split' [of "float_exponent x"] by (simp add: to_float_def float_ulp_def)
qed

lemma to_float_nonneg:
  assumes "0 \<le> x"
  shows "0 \<le> to_float x"
proof (cases "x = 0")
  case True
  then show ?thesis by (simp add: to_float_def)
next
  case False
  have u: "0 < float_ulp x" by (rule float_ulp_pos)
  with assms have "of_int 0 \<le> x / float_ulp x" by simp
  then have "0 \<le> rne (x / float_ulp x)" by (rule rne_ge)
  with u False show ?thesis by (simp add: to_float_def)
qed

lemma to_float_mono_pos:
  assumes "0 < x" and "x \<le> y"
  shows "to_float x \<le> to_float y"
proof -
  from assms have y: "0 < y" by simp
  from assms have e: "float_exponent x \<le> float_exponent y"
    by (intro float_exponent_mono) simp_all
  show ?thesis
  proof (cases "float_exponent x = float_exponent y")
    case True
    then have u: "float_ulp y = float_ulp x"
      by (simp add: float_ulp_def)
    have p: "0 < float_ulp x" by (rule float_ulp_pos)
    from assms p have "x / float_ulp x \<le> y / float_ulp x"
      by (simp add: divide_right_mono)
    then have "rne (x / float_ulp x) \<le> rne (y / float_ulp x)"
      by (rule rne_mono)
    then have "real_of_int (rne (x / float_ulp x)) * float_ulp x
        \<le> real_of_int (rne (y / float_ulp x)) * float_ulp x"
      using p by (simp add: mult_right_mono)
    with assms y show ?thesis
      by (simp add: to_float_def u)
  next
    case False
    with e have lt: "float_exponent x + 1 \<le> float_exponent y" by simp
    have "- 126 \<le> float_exponent x"
      by (simp add: float_exponent_def)
    with lt have n: "- 126 < float_exponent y" by simp
    have "to_float x \<le> 2 powi (float_exponent x + 1)"
      by (rule to_float_pos_upper [OF assms(1)])
    also have "\<dots> \<le> 2 powi float_exponent y"
      by (rule power_int_increasing [OF lt]) simp
    also have "\<dots> \<le> to_float y"
      by (rule to_float_pos_lower [OF y n])
    finally show ?thesis .
  qed
qed

lemma to_float_mono:
  assumes "x \<le> y"
  shows "to_float x \<le> to_float y"
proof -
  consider "0 < x" | "x \<le> 0" "0 \<le> y" | "y < 0" by linarith
  then show ?thesis
  proof cases
    case 1
    then show ?thesis by (rule to_float_mono_pos [OF _ assms])
  next
    case 2
    then have "0 \<le> to_float (- x)" and "0 \<le> to_float y"
      by (simp_all add: to_float_nonneg)
    then show ?thesis by (simp add: to_float_minus)
  next
    case 3
    with assms have "to_float (- y) \<le> to_float (- x)"
      by (intro to_float_mono_pos) simp_all
    then show ?thesis by (simp add: to_float_minus)
  qed
qed

lemma sum_lessThan_3: "(\<Sum>i<3. f i) = f 0 + f 1 + f (2::nat)" for f :: "nat \<Rightarrow> real"
  by (simp add: eval_nat_numeral)

lemma sum_lessThan_2: "(\<Sum>i<2. f i) = f 0 + f (1::nat)" for f :: "nat \<Rightarrow> real"
  by (simp add: eval_nat_numeral)

lemma sum_lessThan_8:
  "(\<Sum>i<8. f i) = f 0 + f 1 + f 2 + f 3 + f 4 + f 5 + f 6 + f (7::nat)" for f :: "nat \<Rightarrow> real"
  by (simp add: eval_nat_numeral)

lemma sum_lessThan_9:
  "(\<Sum>i<9. f i) = f 0 + f 1 + f 2 + f 3 + f 4 + f 5 + f 6 + f 7 + f (8::nat)"
  for f :: "nat \<Rightarrow> real"
  by (simp add: eval_nat_numeral)

lemma arctan_series_bounds:
  assumes "0 < x" and "x \<le> 1"
  shows "(\<Sum>i<2 * n. (- 1) ^ i * (1 / real (i * 2 + 1) * x ^ (i * 2 + 1))) \<le> arctan x"
    and "arctan x \<le> (\<Sum>i<2 * n + 1. (- 1) ^ i * (1 / real (i * 2 + 1) * x ^ (i * 2 + 1)))"
proof -
  let ?a = "\<lambda>n. 1 / real (n * 2 + 1) * x ^ (n * 2 + 1)"
  from assms have x: "\<bar>x\<bar> \<le> 1" by simp
  have "0 < ?a 0" using assms by simp
  with summable_Leibniz(2) [OF zeroseq_arctan_series [OF x] monoseq_arctan_series [OF x]]
  have "(\<Sum>i. (- 1) ^ i * ?a i) \<in> {\<Sum>i<2 * n. (- 1) ^ i * ?a i .. \<Sum>i<2 * n + 1. (- 1) ^ i * ?a i}"
    by blast
  then show "(\<Sum>i<2 * n. (- 1) ^ i * ?a i) \<le> arctan x"
    and "arctan x \<le> (\<Sum>i<2 * n + 1. (- 1) ^ i * ?a i)"
    by (simp_all add: arctan_series [OF x])
qed

lemma pi_bounds: "26353589 / 2 ^ 23 < pi" "pi < 13176795 / 2 ^ 22"
proof -
  have l5: "271352630414872 / 1374664306640625 \<le> arctan (1 / 5)"
    using arctan_series_bounds(1) [of "1 / 5" 4] by (simp add: sum_lessThan_8 power_divide)
  have u5: "arctan (1 / 5) \<le> 23064973585273129 / 116846466064453125"
    using arctan_series_bounds(2) [of "1 / 5" 4] by (simp add: sum_lessThan_9 power_divide)
  have l239: "171362 / 40955757 \<le> arctan (1 / 239)"
    using arctan_series_bounds(1) [of "1 / 239" 1] by (simp add: sum_lessThan_2 power_divide)
  have u239: "arctan (1 / 239) \<le> 48941844013 / 11697168977985"
    using arctan_series_bounds(2) [of "1 / 239" 1] by (simp add: sum_lessThan_3 power_divide)
  have m: "pi = 16 * arctan (1 / 5) - 4 * arctan (1 / 239)"
    using machin by simp
  from l5 u239 show "26353589 / 2 ^ 23 < pi"
    unfolding m by simp
  from u5 l239 show "pi < 13176795 / 2 ^ 22"
    unfolding m by simp
qed

lemma length_read_state: "length (read_state g x) = length x"
  by (simp add: read_state_def)

lemma read_state_nth:
  assumes "length x = 6"
  shows "read_state g x ! 0 = roll (orientation_imu_measurement g)"
    and "read_state g x ! 1 = d_roll (orientation_imu_measurement g)"
    and "read_state g x ! 2 = - pitch (orientation_ow_measurement g)"
    and "read_state g x ! 3 = - d_pitch (orientation_ow_measurement g)"
    and "read_state g x ! 4 = position (combined_inner_wheel g)"
    and "read_state g x ! 5 = velocity (combined_inner_wheel g)"
  using assms by (simp_all add: read_state_def)

lemma length_integrate_cmd: "length (integrate_cmd c w) = length w"
  by (simp add: integrate_cmd_def)

lemma integrate_cmd_nth:
  assumes "length w = 6"
  shows "integrate_cmd c w ! 4 = w ! 4 + forward c * forward_gain c"
    and "integrate_cmd c w ! 5 = forward c * forward_gain c"
    and "i < 4 \<Longrightarrow> integrate_cmd c w ! i = w ! i"
  using assms by (simp_all add: integrate_cmd_def)

lemma length_limit_delta: "length (limit_delta x w) = length w"
  by (simp add: limit_delta_def Let_def)

lemma limit_delta_other: "i \<noteq> 4 \<Longrightarrow> limit_delta x w ! i = w ! i"
  by (simp add: limit_delta_def Let_def)

lemma limit_delta_4:
  assumes "4 < length w"
  shows "limit_delta x w ! 4 =
     (if w ! 4 > x ! 4 + pi * 2
      then (if to_float (x ! 4 + pi * 2) < x ! 4 - pi * 2
            then to_float (x ! 4 - pi * 2) else to_float (x ! 4 + pi * 2))
      else if w ! 4 < x ! 4 - pi * 2 then to_float (x ! 4 - pi * 2) else w ! 4)"
  using assms by (simp add: limit_delta_def Let_def)

lemma limit_delta_inside:
  assumes "4 < length w" and "x ! 4 - pi * 2 \<le> w ! 4" and "w ! 4 \<le> x ! 4 + pi * 2"
  shows "limit_delta x w ! 4 = w ! 4"
  using assms by (simp add: limit_delta_4)

lemma limit_delta_cases:
  assumes "4 < length w"
  shows "(x ! 4 - pi * 2 \<le> limit_delta x w ! 4 \<and> limit_delta x w ! 4 \<le> x ! 4 + pi * 2) \<or>
         limit_delta x w ! 4 = to_float (x ! 4 + pi * 2) \<or>
         limit_delta x w ! 4 = to_float (x ! 4 - pi * 2)"
  using assms by (simp add: limit_delta_4)

lemma upt_6: "[0..<6] = [0, 1, 2, 3, 4, 5::nat]"
  by (simp add: upt_rec)

lemma feedback_sum: "feedback x w k = - (\<Sum>i<6. k ! i * (x ! i - w ! i))"
  by (simp add: feedback_def upt_6 eval_nat_numeral algebra_simps)

lemma wf_loop_body: "wf_locals l \<Longrightarrow> wf_locals (fst (loop_body t g l))"
  by (simp add: wf_locals_def loop_body_def Let_def length_read_state length_limit_delta length_integrate_cmd)

lemma loop_body_fields:
  "state_x (fst (loop_body t g l)) = read_state g (state_x l)"
  "target_w (fst (loop_body t g l)) =
     limit_delta (read_state g (state_x l)) (integrate_cmd (velocity_cmd g) (target_w l))"
  "control_k (fst (loop_body t g l)) = control_k l"
  "motor_increment (fst (loop_body t g l)) =
     feedback (state_x (fst (loop_body t g l))) (target_w (fst (loop_body t g l))) (control_k l)"
  "velocity_lp (fst (loop_body t g l)) =
     to_float ((velocity_lp l + read_state g (state_x l) ! 5) / 2)"
  by (simp_all add: loop_body_def Let_def)

lemma all_less_6: "(\<forall>i<6. P (i::nat)) \<longleftrightarrow> P 0 \<and> P 1 \<and> P 2 \<and> P 3 \<and> P 4 \<and> P 5"
  by (simp add: eval_nat_numeral All_less_Suc conj_ac)

lemma read_state_list:
  assumes "length x = 6"
  shows "read_state g x =
     [roll (orientation_imu_measurement g), d_roll (orientation_imu_measurement g),
      - pitch (orientation_ow_measurement g), - d_pitch (orientation_ow_measurement g),
      position (combined_inner_wheel g), velocity (combined_inner_wheel g)]"
  using assms read_state_nth(2) [OF assms, of g]
  by (simp add: list_eq_iff_nth_eq length_read_state all_less_6 read_state_nth)

lemma to_float_2pi: "to_float (0 + pi * 2) = 13176795 / 2 ^ 21"
proof -
  have "\<lfloor>pi * 2 / 2 powi (2 - 23)\<rfloor> = 13176794"
    using pi_bounds by (simp add: floor_eq_iff power_int_minus field_simps)
  moreover have "1 / 2 < pi * 2 / 2 powi (2 - 23) - 13176794"
    using pi_bounds(1) by (simp add: power_int_minus field_simps)
  ultimately have "rne (pi * 2 / 2 powi (2 - 23)) = 13176795"
    by (simp add: rne_def)
  moreover have "2 powi 2 \<le> \<bar>pi * 2\<bar>" and "\<bar>pi * 2\<bar> < 2 powi (2 + 1)"
    using pi_ge_two pi_less_4 by simp_all
  ultimately show ?thesis
    using to_float_eval [of 2 "pi * 2"] by (simp add: power_int_minus)
qed

lemma pi2_pos: "\<not> pi * 2 < 0"
  using pi_ge_zero by linarith

lemma wf_locals_init: "wf_locals locals_init"
  by (simp add: wf_locals_def locals_init_def)

lemma wf_l_zero_gain: "wf_locals l_zero_gain"
  by (simp add: wf_locals_def l_zero_gain_def locals_init_def)

lemma upright_state: "state_x (fst (loop_body 0 g_upright locals_init)) = [0.1415, 0, 0, 0, 0, 0]"
  by (simp add: loop_body_fields read_state_def g_upright_def globals_init_def locals_init_def)

lemma upright_target: "target_w (fst (loop_body 0 g_upright locals_init)) = [0.1415, 0, 0, 0, 0, 0]"
  by (simp add: loop_body_fields read_state_def integrate_cmd_def limit_delta_def Let_def
      g_upright_def globals_init_def locals_init_def pi2_pos)

lemma init_state: "state_x (fst (loop_body 0 globals_init locals_init)) = [0, 0.2, 0, 0, 0, 0]"
  by (simp add: loop_body_fields read_state_def globals_init_def locals_init_def)

lemma init_target: "target_w (fst (loop_body 0 globals_init locals_init)) = [0.1415, 0, 0, 0, 0, 0]"
  by (simp add: loop_body_fields read_state_def integrate_cmd_def limit_delta_def Let_def
      globals_init_def locals_init_def pi2_pos)

lemma sum_lessThan_6:
  "(\<Sum>i<6. f i) = f 0 + f 1 + f 2 + f 3 + f 4 + f (5::nat)" for f :: "nat \<Rightarrow> real"
  by (simp add: eval_nat_numeral)

lemma wf_l_far_target: "wf_locals l_far_target"
  by (simp add: wf_locals_def l_far_target_def locals_init_def)

lemma to_float_100: "to_float 100 = 100"
  using to_float_eval [of 6 100] by (simp add: rne_def power_int_minus)

lemma far_target_state: "state_x (fst (loop_body 0 globals_init l_far_target)) ! 4 = 0"
  by (simp add: loop_body_fields read_state_def globals_init_def l_far_target_def
      locals_init_def)

lemma far_target_value:
  "target_w (fst (loop_body 0 globals_init l_far_target)) ! 4 = 13176795 / 2 ^ 21"
proof -
  have "pi * 2 < 100"
    using pi_less_4 by linarith
  moreover have "- (pi * 2) \<le> 0" and "(0::real) \<le> 13176795 / 2 ^ 21"
    by simp_all
  then have "\<not> 13176795 / 2 ^ 21 < - (pi * 2)"
    by linarith
  ultimately show ?thesis
    using to_float_2pi
    by (simp add: loop_body_fields read_state_def integrate_cmd_def limit_delta_def Let_def
        globals_init_def l_far_target_def locals_init_def)
qed

lemma loop_body_motor:
  "motor (fst (snd (loop_body t g l))) =
     to_float ((velocity_lp l + read_state g (state_x l) ! 5) / 2) +
     feedback (read_state g (state_x l))
       (limit_delta (read_state g (state_x l)) (integrate_cmd (velocity_cmd g) (target_w l)))
       (control_k l) * main_loop g"
  by (simp add: loop_body_def Let_def)

lemma main_while_locals:
  "main_while g l its = Some (out, gf, lf) \<Longrightarrow> lf = loop_locals l (observed g its)"
proof (induction its arbitrary: g l out)
  case Nil
  then show ?case by simp
next
  case (Cons it its)
  obtain t es where it: "it = (t, es)" by (cases it)
  from Cons.prems obtain g' secs out' where
    s: "spin_some es g = Some g'" and
    m: "main_while g' (fst (loop_body t g l)) its = Some (out', gf, lf)"
    by (auto simp: it split: prod.splits option.splits)
  from Cons.IH [OF m] s show ?case
    by (simp add: it)
qed

lemma wf_loop_locals: "wf_locals l \<Longrightarrow> wf_locals (loop_locals l obs)"
  by (induction obs arbitrary: l) (auto simp: wf_loop_body)

lemma loop_body_lp:
  assumes "wf_locals l"
  shows "velocity_lp (fst (loop_body t g l)) =
    to_float ((velocity_lp l + velocity (combined_inner_wheel g)) / 2)"
proof -
  from assms have "length (state_x l) = 6"
    by (simp add: wf_locals_def)
  then show ?thesis
    by (simp add: loop_body_fields read_state_nth)
qed

lemma mean_distance: "\<bar>(a + v) / 2 - v\<bar> = \<bar>a - v\<bar> / 2" for a v :: real
proof -
  have "(a + v) / 2 - v = (a - v) / 2"
    by (simp add: field_simps)
  then have "\<bar>(a + v) / 2 - v\<bar> = \<bar>(a - v) / 2\<bar>"
    by (rule arg_cong)
  then show ?thesis
    by (simp only: abs_divide abs_numeral)
qed

lemma lp_step_error:
  assumes "wf_locals l" and "velocity (combined_inner_wheel g) = v"
  shows "\<bar>velocity_lp (fst (loop_body t g l)) - v\<bar>
    \<le> \<bar>velocity_lp l - v\<bar> / 2 + float_ulp ((velocity_lp l + v) / 2) / 2"
proof -
  let ?m = "(velocity_lp l + v) / 2"
  have "\<bar>to_float ?m - v\<bar> \<le> \<bar>to_float ?m - ?m\<bar> + \<bar>?m - v\<bar>"
    by linarith
  also have "\<dots> \<le> float_ulp ?m / 2 + \<bar>velocity_lp l - v\<bar> / 2"
    using to_float_error [of ?m] by (simp only: mean_distance)
  finally show ?thesis
    using assms by (simp add: loop_body_lp)
qed

lemma lp_between:
  assumes "wf_locals l" and "velocity (combined_inner_wheel g) = v"
    and "to_float a = a" and "to_float b = b"
    and "a \<le> velocity_lp l" and "velocity_lp l \<le> b" and "a \<le> v" and "v \<le> b"
  shows "a \<le> velocity_lp (fst (loop_body t g l))"
    and "velocity_lp (fst (loop_body t g l)) \<le> b"
proof -
  let ?m = "(velocity_lp l + v) / 2"
  from assms have "a \<le> ?m" and "?m \<le> b"
    by simp_all
  then have "to_float a \<le> to_float ?m" and "to_float ?m \<le> to_float b"
    by (simp_all add: to_float_mono)
  then show "a \<le> velocity_lp (fst (loop_body t g l))"
    and "velocity_lp (fst (loop_body t g l)) \<le> b"
    using assms by (simp_all add: loop_body_lp)
qed

lemma lp_step_bounded:
  assumes "wf_locals l" and "velocity (combined_inner_wheel g) = v"
    and "a \<le> velocity_lp l" and "velocity_lp l \<le> b" and "a \<le> v" and "v \<le> b"
  shows "\<bar>velocity_lp (fst (loop_body t g l)) - v\<bar>
    \<le> \<bar>velocity_lp l - v\<bar> / 2 + float_ulp (max \<bar>a\<bar> \<bar>b\<bar>) / 2"
proof (cases "(velocity_lp l + v) / 2 = 0")
  case True
  then have "velocity_lp (fst (loop_body t g l)) = (velocity_lp l + v) / 2"
    using assms(1,2) by (simp add: loop_body_lp to_float_def)
  then have "\<bar>velocity_lp (fst (loop_body t g l)) - v\<bar> = \<bar>velocity_lp l - v\<bar> / 2"
    by (simp only: mean_distance)
  then show ?thesis
    using float_ulp_pos [of "max \<bar>a\<bar> \<bar>b\<bar>"] by simp
next
  case False
  let ?m = "(velocity_lp l + v) / 2"
  from assms have "a \<le> ?m" and "?m \<le> b"
    by simp_all
  then have "\<bar>?m\<bar> \<le> \<bar>max \<bar>a\<bar> \<bar>b\<bar>\<bar>"
    by linarith
  then have "float_ulp ?m \<le> float_ulp (max \<bar>a\<bar> \<bar>b\<bar>)"
    by (rule float_ulp_mono [OF False])
  with lp_step_error [OF assms(1,2), of t] show ?thesis
    by linarith
qed

lemma lp_after_rounded:
  assumes "wf_locals l" and "\<forall>(t, g) \<in> set obs. velocity (combined_inner_wheel g) = v"
    and "to_float a = a" and "to_float b = b"
    and "a \<le> velocity_lp l" and "velocity_lp l \<le> b" and "a \<le> v" and "v \<le> b"
  shows "\<bar>velocity_lp (loop_locals l obs) - v\<bar>
    \<le> \<bar>velocity_lp l - v\<bar> / 2 ^ length obs
      + (float_ulp (max \<bar>a\<bar> \<bar>b\<bar>) - float_ulp (max \<bar>a\<bar> \<bar>b\<bar>) / 2 ^ length obs)"
  using assms(1,2,5,6)
proof (induction obs arbitrary: l)
  case Nil
  then show ?case by simp
next
  case (Cons ob obs)
  obtain t g where ob: "ob = (t, g)" by (cases ob)
  let ?l = "fst (loop_body t g l)"
  let ?U = "float_ulp (max \<bar>a\<bar> \<bar>b\<bar>)"
  let ?n = "length obs"
  from Cons.prems have v: "velocity (combined_inner_wheel g) = v"
    and rest: "\<forall>(t, g) \<in> set obs. velocity (combined_inner_wheel g) = v"
    by (auto simp: ob)
  note wf = wf_loop_body [OF Cons.prems(1), of t g]
  note bt = lp_between [OF Cons.prems(1) v assms(3,4) Cons.prems(3,4) assms(7,8), of t]
  have step: "\<bar>velocity_lp ?l - v\<bar> \<le> \<bar>velocity_lp l - v\<bar> / 2 + ?U / 2"
    by (rule lp_step_bounded [OF Cons.prems(1) v Cons.prems(3,4) assms(7,8)])
  have "\<bar>velocity_lp (loop_locals ?l obs) - v\<bar>
      \<le> \<bar>velocity_lp ?l - v\<bar> / 2 ^ ?n + (?U - ?U / 2 ^ ?n)"
    by (rule Cons.IH [OF wf rest bt])
  also have "\<dots> \<le> (\<bar>velocity_lp l - v\<bar> / 2 + ?U / 2) / 2 ^ ?n + (?U - ?U / 2 ^ ?n)"
    using step by (simp add: divide_right_mono)
  also have "\<dots> = \<bar>velocity_lp l - v\<bar> / 2 ^ Suc ?n + (?U - ?U / 2 ^ Suc ?n)"
    by (simp add: field_simps)
  finally show ?case
    by (simp add: ob)
qed

lemma wf_l_stall: "wf_locals l_stall"
  by (simp add: wf_locals_def l_stall_def locals_init_def)

lemma wf_l_moving: "wf_locals l_moving"
  by (simp add: wf_locals_def l_moving_def locals_init_def)

lemma to_float_tie: "to_float ((13176794 / 2 ^ 21 + 13176795 / 2 ^ 21) / 2) = 13176794 / 2 ^ 21"
  using to_float_eval [of 2 "(13176794 / 2 ^ 21 + 13176795 / 2 ^ 21) / 2"]
  by (simp add: rne_def power_int_minus)

lemma stall_step:
  assumes "wf_locals l" and "velocity_lp l = 13176794 / 2 ^ 21"
  shows "velocity_lp (fst (loop_body t g_spin l)) = 13176794 / 2 ^ 21"
proof -
  have "velocity (combined_inner_wheel g_spin) = 13176795 / 2 ^ 21"
    by (simp add: g_spin_def)
  with assms show ?thesis
    by (simp only: loop_body_lp to_float_tie)
qed

lemma stall_run:
  assumes "wf_locals l" and "velocity_lp l = 13176794 / 2 ^ 21"
  shows "velocity_lp (loop_locals l (map (\<lambda>k. (f k, g_spin)) ks)) = 13176794 / 2 ^ 21"
  using assms
proof (induction ks arbitrary: l)
  case Nil
  then show ?case by simp
next
  case (Cons k ks)
  from Cons.IH [OF wf_loop_body [OF Cons.prems(1)] stall_step [OF Cons.prems]]
  show ?case by simp
qed

lemma read_state_eqv: "globals_eqv g g' \<Longrightarrow> read_state g x = read_state g' x"
  by (simp add: globals_eqv_def orientation_eqv_def read_state_def)

lemma loop_body_eqv: "globals_eqv g g' \<Longrightarrow> loop_body t g l = loop_body t g' l"
  by (simp add: loop_body_def read_state_eqv [of g g']) (simp add: globals_eqv_def)

lemma sleep_seconds_eqv: "globals_eqv g g' \<Longrightarrow> sleep_seconds g = sleep_seconds g'"
  by (simp add: sleep_seconds_def globals_eqv_def)

lemma param_change_one_eqv:
  "parameter_eqv p p' \<Longrightarrow> globals_eqv g g' \<Longrightarrow>
   globals_eqv (param_change_one p g) (param_change_one p' g')"
  by (auto simp: parameter_eqv_def globals_eqv_def param_change_one_def Let_def)

lemma fold_param_eqv:
  "list_all2 parameter_eqv ps ps' \<Longrightarrow> globals_eqv g g' \<Longrightarrow>
   globals_eqv (fold param_change_one ps g) (fold param_change_one ps' g')"
proof (induction ps ps' arbitrary: g g' rule: list_all2_induct)
  case Nil
  then show ?case by simp
next
  case (Cons p ps p' ps')
  then show ?case by (simp add: param_change_one_eqv)
qed

lemma dispatch_eqv:
  assumes "event_eqv e e'" and "globals_eqv g g'"
  shows "rel_option globals_eqv (dispatch e g) (dispatch e' g')"
proof (cases e)
  case (JoyMsg m)
  with assms show ?thesis
    by (cases e') (auto simp: joy_topic_callback_def globals_eqv_def)
next
  case (OrientationImuMsg m)
  with assms show ?thesis
    by (cases e') (auto simp: orientation_imu_topic_callback_def orientation_of_msg_def
        orientation_msg_eqv_def orientation_eqv_def globals_eqv_def)
next
  case (OrientationOwMsg m)
  with assms show ?thesis
    by (cases e') (auto simp: orientation_ow_topic_callback_def orientation_of_msg_def
        orientation_msg_eqv_def orientation_eqv_def globals_eqv_def)
next
  case (EncodersMsg m)
  with assms show ?thesis
    by (cases e') (auto simp: encoders_topic_callback_def Let_def encoders_msg_eqv_def
        globals_eqv_def)
next
  case (ParamMsg m)
  with assms show ?thesis
    by (cases e') (auto simp: param_change_callback_def fold_param_eqv)
qed

lemma spin_some_eqv:
  "list_all2 event_eqv es es' \<Longrightarrow> globals_eqv g g' \<Longrightarrow>
   rel_option globals_eqv (spin_some es g) (spin_some es' g')"
proof (induction es es' arbitrary: g g' rule: list_all2_induct)
  case Nil
  then show ?case by simp
next
  case (Cons e es e' es')
  from dispatch_eqv [OF Cons.hyps(1) Cons.prems] show ?case
  proof (cases rule: option.rel_cases)
    case None
    then show ?thesis by simp
  next
    case (Some h h')
    with Cons.IH [of h h'] show ?thesis by simp
  qed
qed

lemma main_while_eqv:
  "list_all2 iteration_eqv its its' \<Longrightarrow> globals_eqv g g' \<Longrightarrow>
   map_option fst (main_while g l its) = map_option fst (main_while g' l its')"
proof (induction its its' arbitrary: g g' l rule: list_all2_induct)
  case Nil
  then show ?case by simp
next
  case (Cons it its it' its')
  obtain t es where it: "it = (t, es)" by (cases it)
  obtain t' es' where it': "it' = (t', es')" by (cases it')
  from Cons.hyps(1) have t: "t' = t" and es: "list_all2 event_eqv es es'"
    by (simp_all add: iteration_eqv_def it it')
  obtain l1 bal mot where b: "loop_body t g l = (l1, bal, mot)"
    by (cases "loop_body t g l")
  then have b': "loop_body t g' l = (l1, bal, mot)"
    by (simp add: loop_body_eqv [OF Cons.prems, symmetric])
  from spin_some_eqv [OF es Cons.prems] show ?case
  proof (cases rule: option.rel_cases)
    case None
    then show ?thesis by (simp add: it it' t b b')
  next
    case (Some h h')
    note IH = Cons.IH [OF Some(3), of l1]
    from Some sleep_seconds_eqv [OF Some(3)] IH show ?thesis
      by (auto simp: it it' t b b' split: option.splits)
  qed
qed

lemma main_while_example: "main_while globals_init locals_init its_example \<noteq> None"
  by (simp add: its_example_def joy_topic_callback_def sleep_seconds_def float_to_uint_def
      orientation_imu_topic_callback_def encoders_topic_callback_def param_change_callback_def
      param_change_one_def globals_init_def Let_def split: prod.splits)

lemma loop_body_frame:
  assumes "wf_locals l" and "i < 4"
  shows "target_w (fst (loop_body t g l)) ! i = target_w l ! i"
proof -
  from assms have "length (target_w l) = 6" and "i \<noteq> 4"
    by (simp_all add: wf_locals_def)
  with assms(2) show ?thesis
    by (simp add: loop_body_fields limit_delta_other integrate_cmd_nth)
qed

lemma loop_locals_frame:
  "wf_locals l \<Longrightarrow> i < 4 \<Longrightarrow> target_w (loop_locals l obs) ! i = target_w l ! i"
  by (induction obs arbitrary: l) (auto simp: loop_body_frame wf_loop_body)

lemma loop_locals_init_target:
  "length (target_w (loop_locals locals_init obs)) = 6 \<and>
   target_w (loop_locals locals_init obs) ! 0 = 0.1415 \<and>
   target_w (loop_locals locals_init obs) ! 1 = 0 \<and>
   target_w (loop_locals locals_init obs) ! 2 = 0 \<and>
   target_w (loop_locals locals_init obs) ! 3 = 0"
proof -
  have "wf_locals (loop_locals locals_init obs)"
    by (rule wf_loop_locals [OF wf_locals_init])
  then have "length (target_w (loop_locals locals_init obs)) = 6"
    by (simp add: wf_locals_def)
  moreover have "target_w (loop_locals locals_init obs) ! i = target_w locals_init ! i"
    if "i < 4" for i
    using that by (rule loop_locals_frame [OF wf_locals_init])
  ultimately show ?thesis
    by (simp add: locals_init_def)
qed

lemma to_float_10: "to_float 10 = 10"
  using to_float_eval [of 3 10] by (simp add: rne_def power_int_minus)

lemma to_float_min_max:
  assumes "to_float a = a" and "to_float b = b"
  shows "to_float (min a b) = min a b" and "to_float (max a b) = max a b"
  using assms by (simp_all add: min_def max_def)

subsection \<open>The claims\<close>

text \<open>
  Claim C1. In every iteration the gains are left as they are, the state vector is read
  afresh from the measurements, the target is the updated and clamped reference, and
  the control scalar is \<open>- (\<Sum>i<6. gain i * (state i - target i))\<close> over these; it is 0
  when all six gains are 0 and when all six errors are 0. The scalar output published as
  \<open>motor\<close> is the freshly updated low-pass value plus the control scalar times the loop
  period.
\<close>

theorem control_law:
  assumes "wf_locals l"
  shows "case loop_body t g l of (l', bal, mot) \<Rightarrow>
     control_k l' = control_k l \<and>
     state_x l' =
       [roll (orientation_imu_measurement g), d_roll (orientation_imu_measurement g),
        - pitch (orientation_ow_measurement g), - d_pitch (orientation_ow_measurement g),
        position (combined_inner_wheel g), velocity (combined_inner_wheel g)] \<and>
     target_w l' = limit_delta (state_x l') (integrate_cmd (velocity_cmd g) (target_w l)) \<and>
     motor_increment l' =
       - (\<Sum>i<6. control_k l ! i * (state_x l' ! i - target_w l' ! i)) \<and>
     ((\<forall>i<6. control_k l ! i = 0) \<longrightarrow> motor_increment l' = 0) \<and>
     ((\<forall>i<6. state_x l' ! i - target_w l' ! i = 0) \<longrightarrow> motor_increment l' = 0) \<and>
     velocity_lp l' = to_float ((velocity_lp l + velocity (combined_inner_wheel g)) / 2) \<and>
     motor bal = velocity_lp l' + motor_increment l' * main_loop g"
proof -
  from assms have x: "length (state_x l) = 6"
    by (simp add: wf_locals_def)
  have x5: "read_state g (state_x l) ! 5 = velocity (combined_inner_wheel g)"
    by (rule read_state_nth(6) [OF x])
  show ?thesis
    by (simp add: loop_body_def Let_def feedback_sum read_state_list [OF x, symmetric] x5)
qed

theorem control_law_witness:
  "wf_locals locals_init \<and>
   state_x (fst (loop_body 0 globals_init locals_init)) = [0, 0.2, 0, 0, 0, 0] \<and>
   target_w (fst (loop_body 0 globals_init locals_init)) = [0.1415, 0, 0, 0, 0, 0] \<and>
   control_k (fst (loop_body 0 globals_init locals_init)) =
     [-453.11421438, -41.03540067, 15.17484972, -6.16366411, -4.47213596, -4.30609058] \<and>
   motor_increment (fst (loop_body 0 globals_init locals_init)) = - 55.90858120077 \<and>
   velocity_lp (fst (loop_body 0 globals_init locals_init)) = 0 \<and>
   motor (fst (snd (loop_body 0 globals_init locals_init))) = - 4.4726864960616 \<and>
   state_x (fst (loop_body 0 g_upright locals_init)) = [0.1415, 0, 0, 0, 0, 0] \<and>
   target_w (fst (loop_body 0 g_upright locals_init)) = [0.1415, 0, 0, 0, 0, 0] \<and>
   motor_increment (fst (loop_body 0 g_upright locals_init)) = 0 \<and>
   control_k l_zero_gain = [0, 0, 0, 0, 0, 0] \<and>
   motor_increment (fst (loop_body 0 globals_init l_zero_gain)) = 0"
proof -
  let ?i = "loop_body 0 globals_init locals_init"
  let ?r = "loop_body 0 g_upright locals_init"
  let ?z = "loop_body 0 globals_init l_zero_gain"
  note ci = control_law [OF wf_locals_init, where t = 0 and g = globals_init,
      unfolded case_prod_beta]
  note cr = control_law [OF wf_locals_init, where t = 0 and g = g_upright,
      unfolded case_prod_beta]
  note cz = control_law [OF wf_l_zero_gain, where t = 0 and g = globals_init,
      unfolded case_prod_beta]
  have k: "control_k locals_init =
     [-453.11421438, -41.03540067, 15.17484972, -6.16366411, -4.47213596, -4.30609058]"
    by (simp add: locals_init_def)
  from ci have "motor_increment (fst ?i) =
      - (\<Sum>i<6. control_k locals_init ! i * (state_x (fst ?i) ! i - target_w (fst ?i) ! i))"
    by blast
  then have mi: "motor_increment (fst ?i) = - 55.90858120077"
    by (simp add: init_state init_target k sum_lessThan_6)
  from ci have "velocity_lp (fst ?i) =
      to_float ((velocity_lp locals_init + velocity (combined_inner_wheel globals_init)) / 2)"
    by blast
  then have lp: "velocity_lp (fst ?i) = 0"
    by (simp add: locals_init_def globals_init_def to_float_0)
  from ci have "motor (fst (snd ?i)) = velocity_lp (fst ?i) + motor_increment (fst ?i) * main_loop globals_init"
    by blast
  moreover have "main_loop globals_init = 0.08"
    by (simp add: globals_init_def)
  ultimately have mo: "motor (fst (snd ?i)) = - 4.4726864960616"
    by (simp add: lp mi)
  from ci have ck: "control_k (fst ?i) = control_k locals_init"
    by blast
  have e: "\<forall>i<6. state_x (fst ?r) ! i - target_w (fst ?r) ! i = 0"
    by (simp add: upright_state upright_target all_less_6)
  with cr have mr: "motor_increment (fst ?r) = 0"
    by blast
  have kz: "control_k l_zero_gain = [0, 0, 0, 0, 0, 0]"
    by (simp add: l_zero_gain_def)
  then have "\<forall>i<6. control_k l_zero_gain ! i = 0"
    by (simp add: all_less_6)
  with cz have mz: "motor_increment (fst ?z) = 0"
    by blast
  from wf_locals_init init_state init_target ck k mi lp mo upright_state upright_target mr kz mz
  show ?thesis
    by simp
qed

text \<open>
  Claim C2 says that after the reference update the position target lies in the closed
  interval from \<open>state_x[4] - 2 * pi\<close> to \<open>state_x[4] + 2 * pi\<close>. It fails where the clamp
  is applied: with the wheel position 0 and the position target 100, line 193 stores
  the bound \<open>2 * pi\<close> rounded to \<open>float\<close>, \<open>13176795 / 2 ^ 21\<close>, which is greater than
  \<open>2 * pi\<close>.
\<close>

theorem clamp_exceeds_interval:
  "wf_locals l_far_target \<and>
   target_w l_far_target ! 4 = 100 \<and>
   state_x (fst (loop_body 0 globals_init l_far_target)) ! 4 = 0 \<and>
   target_w (fst (loop_body 0 globals_init l_far_target)) ! 4 = 13176795 / 2 ^ 21 \<and>
   \<not> target_w (fst (loop_body 0 globals_init l_far_target)) ! 4
       \<le> state_x (fst (loop_body 0 globals_init l_far_target)) ! 4 + 2 * pi"
proof -
  have "pi * 2 < 13176795 / 2 ^ 21"
    using pi_bounds(2) by simp
  then have "\<not> 13176795 / 2 ^ 21 \<le> 0 + 2 * pi"
    by simp
  moreover have "target_w l_far_target ! 4 = 100"
    by (simp add: l_far_target_def)
  ultimately show ?thesis
    using wf_l_far_target by (simp only: far_target_state far_target_value) simp
qed

text \<open>
  Claim C2, amended. After the reference update of an iteration the position target
  \<open>target_w[4]\<close> either lies in the closed interval from \<open>state_x[4] - 2 * pi\<close> to
  \<open>state_x[4] + 2 * pi\<close>, or is one of these two bounds rounded to the nearest \<open>float\<close>,
  which is at most half a \<open>float\<close> spacing away from the bound. When the integrated
  target is itself a \<open>float\<close> value, \<open>target_w[4]\<close> lies between the two rounded bounds,
  both included.
\<close>

theorem target_clamped_rounded:
  assumes "wf_locals l"
  shows "case loop_body t g l of (l', bal, mot) \<Rightarrow>
     (let s = state_x l' ! 4; tw = target_w l' ! 4;
          pre = target_w l ! 4 + forward (velocity_cmd g) * forward_gain (velocity_cmd g)
      in s = position (combined_inner_wheel g) \<and>
         ((s - 2 * pi \<le> tw \<and> tw \<le> s + 2 * pi) \<or>
          tw = to_float (s + 2 * pi) \<or> tw = to_float (s - 2 * pi)) \<and>
         \<bar>to_float (s + 2 * pi) - (s + 2 * pi)\<bar> \<le> float_ulp (s + 2 * pi) / 2 \<and>
         \<bar>to_float (s - 2 * pi) - (s - 2 * pi)\<bar> \<le> float_ulp (s - 2 * pi) / 2 \<and>
         (to_float pre = pre \<longrightarrow> to_float (s - 2 * pi) \<le> tw \<and> tw \<le> to_float (s + 2 * pi)))"
proof -
  let ?x = "read_state g (state_x l)"
  let ?pre = "integrate_cmd (velocity_cmd g) (target_w l)"
  let ?s = "?x ! 4"
  let ?tw = "limit_delta ?x ?pre ! 4"
  let ?p = "target_w l ! 4 + forward (velocity_cmd g) * forward_gain (velocity_cmd g)"
  from assms have x: "length (state_x l) = 6" and w: "length (target_w l) = 6"
    by (simp_all add: wf_locals_def)
  have w4: "4 < length ?pre"
    by (simp add: length_integrate_cmd w)
  have s: "?s = position (combined_inner_wheel g)"
    by (rule read_state_nth(5) [OF x])
  have p4: "?pre ! 4 = ?p"
    by (rule integrate_cmd_nth(1) [OF w])
  have c: "(?s - 2 * pi \<le> ?tw \<and> ?tw \<le> ?s + 2 * pi) \<or>
      ?tw = to_float (?s + 2 * pi) \<or> ?tw = to_float (?s - 2 * pi)"
    using limit_delta_cases [OF w4, of ?x] by (simp add: mult.commute)
  have m: "to_float (?s - 2 * pi) \<le> to_float (?s + 2 * pi)"
    by (rule to_float_mono) simp
  have r: "to_float (?s - 2 * pi) \<le> ?tw \<and> ?tw \<le> to_float (?s + 2 * pi)" if f: "to_float ?p = ?p"
  proof (cases "?s - 2 * pi \<le> ?p \<and> ?p \<le> ?s + 2 * pi")
    case True
    then have "?tw = ?p"
      using limit_delta_inside [OF w4, of ?x] by (simp add: p4 mult.commute)
    moreover from True have "to_float (?s - 2 * pi) \<le> to_float ?p"
      and "to_float ?p \<le> to_float (?s + 2 * pi)"
      by (simp_all add: to_float_mono)
    ultimately show ?thesis
      using f by simp
  next
    case False
    then have "?tw = to_float (?s + 2 * pi) \<or> ?tw = to_float (?s - 2 * pi)"
      by (auto simp: limit_delta_4 [OF w4] p4 mult.commute)
    with m show ?thesis
      by auto
  qed
  show ?thesis
    using s c r to_float_error [of "?s + 2 * pi"] to_float_error [of "?s - 2 * pi"]
    by (simp add: case_prod_beta loop_body_fields Let_def)
qed

theorem target_clamped_rounded_witness:
  "wf_locals l_far_target \<and>
   to_float (target_w l_far_target ! 4
      + forward (velocity_cmd globals_init) * forward_gain (velocity_cmd globals_init))
     = target_w l_far_target ! 4
      + forward (velocity_cmd globals_init) * forward_gain (velocity_cmd globals_init) \<and>
   state_x (fst (loop_body 0 globals_init l_far_target)) ! 4 = 0 \<and>
   target_w (fst (loop_body 0 globals_init l_far_target)) ! 4 = to_float (0 + 2 * pi) \<and>
   to_float (0 - 2 * pi) \<le> target_w (fst (loop_body 0 globals_init l_far_target)) ! 4 \<and>
   target_w (fst (loop_body 0 globals_init l_far_target)) ! 4 \<le> to_float (0 + 2 * pi)"
proof -
  let ?p = "target_w l_far_target ! 4
      + forward (velocity_cmd globals_init) * forward_gain (velocity_cmd globals_init)"
  have p: "?p = 100"
    by (simp add: l_far_target_def globals_init_def)
  then have f: "to_float ?p = ?p"
    by (simp only: to_float_100)
  note r = target_clamped_rounded [OF wf_l_far_target, where t = 0 and g = globals_init,
      unfolded case_prod_beta Let_def far_target_state]
  from r f have "to_float (0 - 2 * pi) \<le> target_w (fst (loop_body 0 globals_init l_far_target)) ! 4 \<and>
   target_w (fst (loop_body 0 globals_init l_far_target)) ! 4 \<le> to_float (0 + 2 * pi)"
    by blast
  moreover have "target_w (fst (loop_body 0 globals_init l_far_target)) ! 4 = to_float (0 + 2 * pi)"
    using to_float_2pi by (simp add: far_target_value mult.commute)
  ultimately show ?thesis
    using wf_l_far_target f far_target_state by blast
qed

text \<open>
  Claim C3. Before the clamp, the reference update adds
  \<open>forward * forward_gain\<close> to \<open>target_w[4]\<close> and stores \<open>forward * forward_gain\<close> in
  \<open>target_w[5]\<close>; the clamp leaves index 5 alone and leaves index 4 alone when it is within
  the window. From rest (wheel position 0, position target 0) with \<open>forward = 1\<close> and
  \<open>forward_gain = 0.05\<close>, one iteration increases \<open>target_w[4]\<close> by 0.05 and sets
  \<open>target_w[5]\<close> to 0.05.
\<close>

theorem reference_update:
  assumes "wf_locals l"
  shows "case loop_body t g l of (l', bal, mot) \<Rightarrow>
     (let c = velocity_cmd g; pre = integrate_cmd c (target_w l) in
        pre ! 4 = target_w l ! 4 + forward c * forward_gain c \<and>
        pre ! 5 = forward c * forward_gain c \<and>
        target_w l' = limit_delta (state_x l') pre \<and>
        target_w l' ! 5 = forward c * forward_gain c \<and>
        (state_x l' ! 4 - pi * 2 \<le> pre ! 4 \<and> pre ! 4 \<le> state_x l' ! 4 + pi * 2 \<longrightarrow>
           target_w l' ! 4 = target_w l ! 4 + forward c * forward_gain c) \<and>
        (forward c = 1 \<and> forward_gain c = 0.05 \<and>
         position (combined_inner_wheel g) = 0 \<and> target_w l ! 4 = 0 \<longrightarrow>
           target_w l' ! 4 = target_w l ! 4 + 0.05 \<and> target_w l' ! 5 = 0.05))"
proof -
  let ?c = "velocity_cmd g"
  let ?pre = "integrate_cmd ?c (target_w l)"
  let ?x = "read_state g (state_x l)"
  from assms have x: "length (state_x l) = 6" and w: "length (target_w l) = 6"
    by (simp_all add: wf_locals_def)
  have w4: "4 < length ?pre"
    by (simp add: length_integrate_cmd w)
  have p4: "?pre ! 4 = target_w l ! 4 + forward ?c * forward_gain ?c"
    and p5: "?pre ! 5 = forward ?c * forward_gain ?c"
    by (rule integrate_cmd_nth [OF w])+
  have t5: "limit_delta ?x ?pre ! 5 = forward ?c * forward_gain ?c"
    by (simp add: limit_delta_other p5)
  have t4: "limit_delta ?x ?pre ! 4 = target_w l ! 4 + forward ?c * forward_gain ?c"
    if "?x ! 4 - pi * 2 \<le> ?pre ! 4" and "?pre ! 4 \<le> ?x ! 4 + pi * 2"
    using that limit_delta_inside [OF w4, of ?x] by (simp add: p4)
  have rest: "limit_delta ?x ?pre ! 4 = target_w l ! 4 + 0.05 \<and> limit_delta ?x ?pre ! 5 = 0.05"
    if "forward ?c = 1" and "forward_gain ?c = 0.05"
      and "position (combined_inner_wheel g) = 0" and "target_w l ! 4 = 0"
  proof -
    have "?x ! 4 = 0"
      using that by (simp add: read_state_nth(5) [OF x])
    moreover have "?pre ! 4 = 0.05"
      using that by (simp add: p4)
    moreover have "(0.05::real) \<le> pi * 2" "- (pi * 2) \<le> (0.05::real)"
      using pi_ge_two by simp_all
    ultimately show ?thesis
      using that limit_delta_inside [OF w4, of ?x] by (simp add: t5)
  qed
  show ?thesis
    using p4 p5 t5 t4 rest by (simp add: case_prod_beta loop_body_fields Let_def)
qed

theorem reference_update_witness:
  "wf_locals locals_init \<and>
   forward (velocity_cmd g_forward) = 1 \<and> forward_gain (velocity_cmd g_forward) = 0.05 \<and>
   position (combined_inner_wheel g_forward) = 0 \<and> target_w locals_init ! 4 = 0 \<and>
   target_w (fst (loop_body 0 g_forward locals_init)) ! 4 = 0.05 \<and>
   target_w (fst (loop_body 0 g_forward locals_init)) ! 5 = 0.05"
proof -
  have wf: "wf_locals locals_init"
    by (simp add: wf_locals_def locals_init_def)
  have h: "forward (velocity_cmd g_forward) = 1 \<and> forward_gain (velocity_cmd g_forward) = 0.05 \<and>
    position (combined_inner_wheel g_forward) = 0 \<and> target_w locals_init ! 4 = 0"
    by (simp add: g_forward_def globals_init_def locals_init_def)
  note r = reference_update [OF wf, where t = 0 and g = g_forward, unfolded case_prod_beta Let_def]
  from r h
  have "target_w (fst (loop_body 0 g_forward locals_init)) ! 4 = target_w locals_init ! 4 + 0.05 \<and>
    target_w (fst (loop_body 0 g_forward locals_init)) ! 5 = 0.05"
    by blast
  with wf h show ?thesis
    by simp
qed



text \<open>
  Claim C5. The published wheel targets are \<open>motor - turn * turn_gain\<close> (left) and
  \<open>motor + turn * turn_gain\<close> (right); the setpoint of \<open>motor1\<close> is the converted negated
  left target and the setpoint of \<open>motor0\<close> the converted right target. With \<open>turn = 0\<close>
  both targets equal \<open>motor\<close>; with \<open>turn = 1\<close>, \<open>turn_gain = 3\<close> and \<open>motor = 5\<close> they are
  2 and 8.
\<close>

theorem output_shaper:
  "case loop_body t g l of (l', bal, mot) \<Rightarrow>
     (let c = velocity_cmd g in
        motor_left bal = motor bal - turn c * turn_gain c \<and>
        motor_right bal = motor bal + turn c * turn_gain c \<and>
        mot_setpoint (motor1 mot) = radToCpr (- motor_left bal) \<and>
        mot_setpoint (motor0 mot) = radToCpr (motor_right bal) \<and>
        (turn c = 0 \<longrightarrow> motor_left bal = motor bal \<and> motor_right bal = motor bal) \<and>
        (turn c = 1 \<and> turn_gain c = 3 \<and> motor bal = 5 \<longrightarrow>
           motor_left bal = 2 \<and> motor_right bal = 8))"
  by (simp add: loop_body_def Let_def)

theorem output_shaper_witness:
  "turn (velocity_cmd g_turn) = 1 \<and> turn_gain (velocity_cmd g_turn) = 3 \<and>
   motor (fst (snd (loop_body 0 g_turn l_moving))) = 5 \<and>
   motor_left (fst (snd (loop_body 0 g_turn l_moving))) = 2 \<and>
   motor_right (fst (snd (loop_body 0 g_turn l_moving))) = 8 \<and>
   turn (velocity_cmd globals_init) = 0 \<and>
   motor_left (fst (snd (loop_body 0 globals_init l_moving)))
     = motor (fst (snd (loop_body 0 globals_init l_moving))) \<and>
   motor_right (fst (snd (loop_body 0 globals_init l_moving)))
     = motor (fst (snd (loop_body 0 globals_init l_moving)))"
proof -
  have h: "turn (velocity_cmd g_turn) = 1 \<and> turn_gain (velocity_cmd g_turn) = 3 \<and>
    motor (fst (snd (loop_body 0 g_turn l_moving))) = 5"
    by (simp add: loop_body_motor g_turn_def globals_init_def l_moving_def locals_init_def
        read_state_def to_float_5)
  have z: "turn (velocity_cmd globals_init) = 0"
    by (simp add: globals_init_def)
  note r = output_shaper [where t = 0 and g = g_turn and l = l_moving,
      unfolded case_prod_beta Let_def]
  note s = output_shaper [where t = 0 and g = globals_init and l = l_moving,
      unfolded case_prod_beta Let_def]
  from r h have "motor_left (fst (snd (loop_body 0 g_turn l_moving))) = 2 \<and>
    motor_right (fst (snd (loop_body 0 g_turn l_moving))) = 8"
    by blast
  moreover from s z have "motor_left (fst (snd (loop_body 0 globals_init l_moving)))
     = motor (fst (snd (loop_body 0 globals_init l_moving))) \<and>
   motor_right (fst (snd (loop_body 0 globals_init l_moving)))
     = motor (fst (snd (loop_body 0 globals_init l_moving)))"
    by blast
  ultimately show ?thesis using h z by simp
qed

text \<open>
  Claim C6. \<open>cprToRad x = x * 2 * pi / 8192\<close> and \<open>radToCpr x = x * 8192 / (2 * pi)\<close>, and
  over exact arithmetic each conversion undoes the other.
\<close>

theorem unit_conversion_inverse:
  "cprToRad x = x * 2 * pi / 8192 \<and>
   radToCpr x = x * 8192 / (2 * pi) \<and>
   cprToRad (radToCpr x) = x \<and>
   radToCpr (cprToRad x) = x"
  by (simp add: cprToRad_def radToCpr_def)

text \<open>
  Claim C7 says that the distance of \<open>velocity_lp\<close> to a constant input halves in every
  iteration, so that \<open>velocity_lp\<close> converges to the input. It fails one \<open>float\<close> below
  the input: with the input \<open>13176795 / 2 ^ 21\<close> (the \<open>float\<close> nearest to \<open>2 * pi\<close>) and
  \<open>velocity_lp = 13176794 / 2 ^ 21\<close>, the mean is a tie that rounds back to
  \<open>velocity_lp\<close>; the distance stays the same in every iteration and the sequence does
  not converge to the input.
\<close>

theorem lowpass_stalls:
  "wf_locals l_stall \<and>
   velocity_lp l_stall = 13176794 / 2 ^ 21 \<and>
   velocity (combined_inner_wheel g_spin) = 13176795 / 2 ^ 21 \<and>
   velocity_lp (fst (loop_body 0 g_spin l_stall)) = 13176794 / 2 ^ 21 \<and>
   \<not> \<bar>velocity_lp (fst (loop_body 0 g_spin l_stall)) - velocity (combined_inner_wheel g_spin)\<bar>
       = \<bar>velocity_lp l_stall - velocity (combined_inner_wheel g_spin)\<bar> / 2 \<and>
   \<not> (\<lambda>n. velocity_lp (loop_locals l_stall (map (\<lambda>k. (int k, g_spin)) [0..<n])))
       \<longlonglongrightarrow> velocity (combined_inner_wheel g_spin)"
proof -
  have lp: "velocity_lp l_stall = 13176794 / 2 ^ 21"
    by (simp add: l_stall_def)
  have v: "velocity (combined_inner_wheel g_spin) = 13176795 / 2 ^ 21"
    by (simp add: g_spin_def)
  have s: "velocity_lp (fst (loop_body 0 g_spin l_stall)) = 13176794 / 2 ^ 21"
    by (rule stall_step [OF wf_l_stall lp])
  have h: "\<not> \<bar>velocity_lp (fst (loop_body 0 g_spin l_stall)) - velocity (combined_inner_wheel g_spin)\<bar>
       = \<bar>velocity_lp l_stall - velocity (combined_inner_wheel g_spin)\<bar> / 2"
    by (simp add: s lp v)
  have c: "(\<lambda>n. velocity_lp (loop_locals l_stall (map (\<lambda>k. (int k, g_spin)) [0..<n])))
      = (\<lambda>n. 13176794 / 2 ^ 21)"
    by (rule ext) (rule stall_run [OF wf_l_stall lp])
  have nc: "\<not> (\<lambda>n::nat. 13176794 / 2 ^ 21 :: real) \<longlonglongrightarrow> 13176795 / 2 ^ 21"
  proof
    assume "(\<lambda>n::nat. 13176794 / 2 ^ 21 :: real) \<longlonglongrightarrow> 13176795 / 2 ^ 21"
    then have "(13176795 / 2 ^ 21 :: real) = 13176794 / 2 ^ 21"
      by (rule LIMSEQ_unique) (rule tendsto_const)
    then show False by simp
  qed
  have n: "\<not> (\<lambda>n. velocity_lp (loop_locals l_stall (map (\<lambda>k. (int k, g_spin)) [0..<n])))
       \<longlonglongrightarrow> velocity (combined_inner_wheel g_spin)"
    unfolding c v by (rule nc)
  from wf_l_stall lp v s h n show ?thesis
    by blast
qed

text \<open>
  Claim C7, amended. Each iteration replaces \<open>velocity_lp\<close> by the mean of its old value
  and the wheel velocity read in that iteration, rounded to the nearest \<open>float\<close>. A
  \<open>float\<close> input equal to \<open>velocity_lp\<close> is a fixed point. The distance to the input is
  at most half the previous distance plus half a \<open>float\<close> spacing at the mean; for
  \<open>float\<close> values the new \<open>velocity_lp\<close> lies between the old one and the input, so the
  distance never grows. When every iteration observes the same \<open>float\<close> velocity \<open>u\<close>, the
  distance after \<open>n\<close> iterations is at most the initial distance divided by \<open>2 ^ n\<close> plus
  one \<open>float\<close> spacing at the larger of the two magnitudes.
\<close>

theorem velocity_lowpass_rounded:
  assumes "wf_locals l"
  shows "(let v = velocity (combined_inner_wheel g); l' = fst (loop_body t g l);
              m = (velocity_lp l + v) / 2 in
            state_x l' ! 5 = v \<and>
            velocity_lp l' = to_float m \<and>
            (velocity_lp l = v \<and> to_float v = v \<longrightarrow> velocity_lp l' = v) \<and>
            \<bar>velocity_lp l' - v\<bar> \<le> \<bar>velocity_lp l - v\<bar> / 2 + float_ulp m / 2 \<and>
            (to_float (velocity_lp l) = velocity_lp l \<and> to_float v = v \<longrightarrow>
               min (velocity_lp l) v \<le> velocity_lp l' \<and> velocity_lp l' \<le> max (velocity_lp l) v \<and>
               \<bar>velocity_lp l' - v\<bar> \<le> \<bar>velocity_lp l - v\<bar>)) \<and>
         ((\<forall>n. velocity (combined_inner_wheel (snd (obs n))) = u) \<and>
          to_float u = u \<and> to_float (velocity_lp l) = velocity_lp l \<longrightarrow>
            (\<forall>n. \<bar>velocity_lp (loop_locals l (map obs [0..<n])) - u\<bar>
                   \<le> \<bar>velocity_lp l - u\<bar> / 2 ^ n + float_ulp (max \<bar>velocity_lp l\<bar> \<bar>u\<bar>)))"
proof -
  let ?v = "velocity (combined_inner_wheel g)"
  let ?l = "fst (loop_body t g l)"
  let ?m = "(velocity_lp l + ?v) / 2"
  from assms have x: "length (state_x l) = 6"
    by (simp add: wf_locals_def)
  have x5: "state_x ?l ! 5 = ?v"
    by (simp add: loop_body_fields read_state_nth [OF x])
  have lp: "velocity_lp ?l = to_float ?m"
    by (rule loop_body_lp [OF assms])
  have fp: "velocity_lp ?l = ?v" if "velocity_lp l = ?v" and "to_float ?v = ?v"
    using that by (simp add: lp)
  have err: "\<bar>velocity_lp ?l - ?v\<bar> \<le> \<bar>velocity_lp l - ?v\<bar> / 2 + float_ulp ?m / 2"
    by (rule lp_step_error [OF assms refl])
  have btw: "min (velocity_lp l) ?v \<le> velocity_lp ?l \<and> velocity_lp ?l \<le> max (velocity_lp l) ?v \<and>
      \<bar>velocity_lp ?l - ?v\<bar> \<le> \<bar>velocity_lp l - ?v\<bar>"
    if f: "to_float (velocity_lp l) = velocity_lp l" "to_float ?v = ?v"
  proof -
    have "min (velocity_lp l) ?v \<le> velocity_lp ?l" and "velocity_lp ?l \<le> max (velocity_lp l) ?v"
      by (rule lp_between [OF assms refl to_float_min_max [OF f]]; simp)+
    then show ?thesis
      by (auto simp: min_def max_def abs_le_iff split: if_splits)
  qed
  have run: "\<bar>velocity_lp (loop_locals l (map obs [0..<n])) - u\<bar>
      \<le> \<bar>velocity_lp l - u\<bar> / 2 ^ n + float_ulp (max \<bar>velocity_lp l\<bar> \<bar>u\<bar>)"
    if c: "\<forall>n. velocity (combined_inner_wheel (snd (obs n))) = u"
      and f: "to_float u = u" "to_float (velocity_lp l) = velocity_lp l" for n
  proof -
    let ?a = "min (velocity_lp l) u" and ?b = "max (velocity_lp l) u"
    let ?U = "float_ulp (max \<bar>?a\<bar> \<bar>?b\<bar>)"
    from c have all: "\<forall>(t, g) \<in> set (map obs [0..<n]). velocity (combined_inner_wheel g) = u"
      by (auto simp: case_prod_beta)
    have "\<bar>velocity_lp (loop_locals l (map obs [0..<n])) - u\<bar>
        \<le> \<bar>velocity_lp l - u\<bar> / 2 ^ length (map obs [0..<n])
          + (?U - ?U / 2 ^ length (map obs [0..<n]))"
      by (rule lp_after_rounded [OF assms all to_float_min_max [OF f(2,1)]]; simp)
    moreover have "0 \<le> ?U / 2 ^ n"
      using float_ulp_pos [of "max \<bar>?a\<bar> \<bar>?b\<bar>"] by simp
    moreover have "max \<bar>?a\<bar> \<bar>?b\<bar> = max \<bar>velocity_lp l\<bar> \<bar>u\<bar>"
      by (cases "velocity_lp l \<le> u") (simp_all add: max.commute)
    ultimately show ?thesis
      by simp
  qed
  show ?thesis
    using x5 lp fp err btw run by (simp add: Let_def)
qed

theorem velocity_lowpass_rounded_witness:
  "wf_locals l_moving \<and>
   (\<forall>n. velocity (combined_inner_wheel (snd (int n, globals_init))) = 0) \<and>
   to_float 0 = 0 \<and>
   to_float (velocity_lp l_moving) = velocity_lp l_moving \<and>
   velocity_lp (fst (loop_body 0 globals_init l_moving)) = 5 \<and>
   \<bar>velocity_lp (loop_locals l_moving (map (\<lambda>n. (int n, globals_init)) [0..<3]))\<bar>
     \<le> 10 / 2 ^ 3 + float_ulp 10 \<and>
   velocity_lp locals_init = velocity (combined_inner_wheel globals_init) \<and>
   velocity_lp (fst (loop_body 0 globals_init locals_init)) = 0"
proof -
  have c: "\<forall>n. velocity (combined_inner_wheel (snd (int n, globals_init))) = 0"
    by (simp add: globals_init_def)
  have z: "velocity (combined_inner_wheel globals_init) = 0"
    by (simp add: globals_init_def)
  have f: "velocity_lp locals_init = velocity (combined_inner_wheel globals_init)"
    by (simp add: globals_init_def locals_init_def)
  have m: "velocity_lp l_moving = 10"
    by (simp add: l_moving_def)
  then have fm: "to_float (velocity_lp l_moving) = velocity_lp l_moving"
    by (simp only: to_float_10)
  note r = velocity_lowpass_rounded [OF wf_l_moving, where t = 0 and g = globals_init
      and obs = "\<lambda>n. (int n, globals_init)" and u = 0, unfolded Let_def]
  note s = velocity_lowpass_rounded [OF wf_locals_init, where t = 0 and g = globals_init,
      unfolded Let_def]
  from r have "velocity_lp (fst (loop_body 0 globals_init l_moving))
      = to_float ((velocity_lp l_moving + velocity (combined_inner_wheel globals_init)) / 2)"
    by blast
  then have a: "velocity_lp (fst (loop_body 0 globals_init l_moving)) = 5"
    by (simp add: m z to_float_5)
  from r c to_float_0 fm
  have "\<bar>velocity_lp (loop_locals l_moving (map (\<lambda>n. (int n, globals_init)) [0..<3])) - 0\<bar>
      \<le> \<bar>velocity_lp l_moving - 0\<bar> / 2 ^ 3 + float_ulp (max \<bar>velocity_lp l_moving\<bar> \<bar>0\<bar>)"
    by blast
  then have b: "\<bar>velocity_lp (loop_locals l_moving (map (\<lambda>n. (int n, globals_init)) [0..<3]))\<bar>
     \<le> 10 / 2 ^ 3 + float_ulp 10"
    by (simp add: m)
  from s f z to_float_0 have d: "velocity_lp (fst (loop_body 0 globals_init locals_init)) = 0"
    by simp
  from wf_l_moving c to_float_0 fm a b f d show ?thesis
    by blast
qed

text \<open>
  Claim C8 says that the duration requested from \<open>sleep\<close> equals the configured loop
  period. The argument of \<open>sleep\<close> is an \<open>unsigned int\<close> number of seconds: with the
  default period of 0.08 the loop requests a sleep of 0 seconds.
\<close>

theorem sleep_truncates_period:
  "main_loop globals_init = 0.08 \<and>
   sleep_seconds globals_init = Some 0 \<and>
   map_option (\<lambda>r. map (\<lambda>p. snd (snd p)) (fst r)) (main_while globals_init locals_init [(0, [])])
     = Some [0]"
  by (simp add: globals_init_def sleep_seconds_def float_to_uint_def split: prod.splits)

text \<open>
  Claim C9. The reference vector starts as \<open>[0.1415, 0, 0, 0, 0, 0]\<close>; an iteration
  leaves its indices 0 to 3 unchanged; and after any run of the loop from the initial
  locals, whatever the callbacks did, it still has six elements and indices 0 to 3 hold
  0.1415, 0, 0 and 0.
\<close>

theorem reference_frame:
  "target_w locals_init = [0.1415, 0, 0, 0, 0, 0] \<and>
   (wf_locals l \<longrightarrow> (\<forall>i<4. target_w (fst (loop_body t g l)) ! i = target_w l ! i)) \<and>
   (\<forall>out gf lf. main_while g0 locals_init its = Some (out, gf, lf) \<longrightarrow>
      length (target_w lf) = 6 \<and> target_w lf ! 0 = 0.1415 \<and>
      target_w lf ! 1 = 0 \<and> target_w lf ! 2 = 0 \<and> target_w lf ! 3 = 0)"
proof (intro conjI impI allI)
  show "target_w locals_init = [0.1415, 0, 0, 0, 0, 0]"
    by (simp add: locals_init_def)
next
  fix i :: nat
  assume "wf_locals l" and "i < 4"
  then show "target_w (fst (loop_body t g l)) ! i = target_w l ! i"
    by (rule loop_body_frame)
next
  fix out gf lf
  assume "main_while g0 locals_init its = Some (out, gf, lf)"
  then have lf: "lf = loop_locals locals_init (observed g0 its)"
    by (rule main_while_locals)
  note r = loop_locals_init_target [of "observed g0 its"]
  from r show "length (target_w lf) = 6" by (simp add: lf)
  from r show "target_w lf ! 0 = 0.1415" by (simp add: lf)
  from r show "target_w lf ! 1 = 0" by (simp add: lf)
  from r show "target_w lf ! 2 = 0" by (simp add: lf)
  from r show "target_w lf ! 3 = 0" by (simp add: lf)
qed

theorem reference_frame_witness:
  "wf_locals locals_init \<and>
   target_w (fst (loop_body 0 g_forward locals_init)) ! 0 = target_w locals_init ! 0 \<and>
   target_w (fst (loop_body 0 g_forward locals_init)) ! 3 = target_w locals_init ! 3 \<and>
   (\<exists>out gf lf. main_while globals_init locals_init its_example = Some (out, gf, lf) \<and>
      take 4 (target_w lf) = [0.1415, 0, 0, 0])"
proof -
  note r = reference_frame [where l = locals_init and t = 0 and g = g_forward
      and ?g0.0 = globals_init and its = its_example]
  from main_while_example obtain out gf lf
    where m: "main_while globals_init locals_init its_example = Some (out, gf, lf)"
    by auto
  with r have "length (target_w lf) = 6 \<and> target_w lf ! 0 = 0.1415 \<and>
      target_w lf ! 1 = 0 \<and> target_w lf ! 2 = 0 \<and> target_w lf ! 3 = 0"
    by blast
  then have "take 4 (target_w lf) = [0.1415, 0, 0, 0]"
    by (auto simp: list_eq_iff_nth_eq less_Suc_eq eval_nat_numeral)
  moreover from r wf_locals_init
  have "target_w (fst (loop_body 0 g_forward locals_init)) ! 0 = target_w locals_init ! 0 \<and>
    target_w (fst (loop_body 0 g_forward locals_init)) ! 3 = target_w locals_init ! 3"
    by simp
  ultimately show ?thesis using m wf_locals_init
    by blast
qed

text \<open>
  Claim C10. Two runs from global states and with dispatched messages that agree
  except on the stored and the announced value of \<open>vel_lowpass\<close>, on the raw position of
  the left encoder and on \<open>yaw\<close>, \<open>d_yaw\<close> and \<open>dt\<close> of the orientation samples either both
  stop at the same undefined step or publish the same messages (and request the same
  sleep) in every iteration.
\<close>

theorem unused_inputs_noninterference:
  assumes "globals_eqv g g'" and "list_all2 iteration_eqv its its'"
  shows "loop_body t g l = loop_body t g' l \<and>
         map_option fst (main_while g l its) = map_option fst (main_while g' l its')"
  using assms by (simp add: main_while_eqv loop_body_eqv)

theorem unused_inputs_noninterference_witness:
  "globals_eqv globals_init (globals_init\<lparr>vel_lowpass := 5\<rparr>) \<and>
   list_all2 iteration_eqv its_example its_example' \<and>
   its_example \<noteq> its_example' \<and>
   main_while globals_init locals_init its_example \<noteq> None \<and>
   map_option fst (main_while globals_init locals_init its_example) =
   map_option fst (main_while (globals_init\<lparr>vel_lowpass := 5\<rparr>) locals_init its_example')"
proof -
  have g: "globals_eqv globals_init (globals_init\<lparr>vel_lowpass := 5\<rparr>)"
    by (simp add: globals_eqv_def orientation_eqv_def)
  have i: "list_all2 iteration_eqv its_example its_example'"
    by (simp add: its_example_def its_example'_def iteration_eqv_def orientation_msg_eqv_def
        encoders_msg_eqv_def parameter_eqv_def)
  have n: "its_example \<noteq> its_example'"
    by (simp add: its_example_def its_example'_def)
  from unused_inputs_noninterference [OF g i, of 0 locals_init] g i n main_while_example
  show ?thesis
    by simp
qed

end
